theory Spec2Isabelle
  imports Complex_Main
begin

section \<open>Numbers\<close>

text \<open>
  A JavaScript \<open>number\<close> is modelled as a real number: the arithmetic of the games
  (\<open>+\<close>, \<open>-\<close>, \<open>*\<close>, \<open>/\<close>, comparisons, \<open>Math.floor\<close>, \<open>Math.max\<close>, and
  \<open>Math.sqrt\<close>, \<open>Math.cos\<close>, \<open>Math.sin\<close>, \<open>Math.atan2\<close> in the Plinko animation)
  is read in ideal arithmetic, without the representation error of IEEE doubles.

  \<open>toFixed d x\<close> models the composition \<open>Number(x.toFixed(d))\<close> (also written
  \<open>parseFloat(x.toFixed(d))\<close> in the source): the sign is split off, the magnitude is
  taken to the nearest multiple of \<open>10^-d\<close> with a tie going to the larger one, and a
  magnitude of \<open>10^21\<close> or more is printed in full and so read back unchanged.
\<close>

definition toFixed :: "nat \<Rightarrow> real \<Rightarrow> real" where
  "toFixed d x =
     (if 10 ^ 21 \<le> \<bar>x\<bar> then x
      else if x < 0 then - (of_int \<lfloor>(- x) * 10 ^ d + 1 / 2\<rfloor> / 10 ^ d)
      else of_int \<lfloor>x * 10 ^ d + 1 / 2\<rfloor> / 10 ^ d)"

section \<open>The ledger: \<open>src/lib/tokens.ts\<close>\<close>

text \<open>
  The remote store is two tables: \<open>profiles\<close>, one row per user holding
  \<open>token_balance\<close>, and the append-only \<open>token_transactions\<close>. A row store is all
  that is modelled of it. The module-level \<open>cachedBalance\<close> is part of the state
  (its timestamp is left out: no modelled function reads it).
\<close>

type_synonym user_id = string

datatype transaction_type = purchase | game_spend | game_win

datatype game_type = crash | dice | plinko | blackjack | mines

record token_transaction =
  user_id :: user_id
  transaction_type :: transaction_type
  token_amount :: real
  game_type :: game_type

record ledger =
  profiles :: "user_id \<rightharpoonup> real"
  token_transactions :: "token_transaction list"
  cachedBalance :: "real option"

text \<open>
  Every call to the store can fail (\<open>if (error) throw ...\<close> in the source). Which of the
  calls of one operation fail is an input of the model.
\<close>

record faults =
  select_fails :: bool
  insert_fails :: bool
  update_fails :: bool

definition no_faults :: faults where
  "no_faults = \<lparr>select_fails = False, insert_fails = False, update_fails = False\<rparr>"

datatype error =
  Failed_to_update_token_balance
  | Failed_to_get_current_balance
  | Insufficient_token_balance
  | Failed_to_record_game_transaction
  | User_not_authenticated

text \<open>
  \<open>updateTokenBalance\<close>: clamp at zero, round to two decimals, write the row and read
  it back (\<open>.single()\<close> fails when no row matches), refresh the cache.
\<close>

definition updateTokenBalance ::
  "faults \<Rightarrow> user_id \<Rightarrow> real \<Rightarrow> ledger \<Rightarrow> (error + real) \<times> ledger" where
  "updateTokenBalance f userId newBalance st =
     (let roundedBalance = toFixed 2 (max 0 newBalance) in
      if update_fails f \<or> profiles st userId = None
      then (Inl Failed_to_update_token_balance, st)
      else (Inr roundedBalance,
            st\<lparr>profiles := (profiles st)(userId \<mapsto> roundedBalance),
               cachedBalance := Some roundedBalance\<rparr>))"

text \<open>The row that \<open>recordGameTransaction\<close> inserts.\<close>

definition transaction_row :: "user_id \<Rightarrow> game_type \<Rightarrow> real \<Rightarrow> bool \<Rightarrow> token_transaction" where
  "transaction_row userId gameType amount isWin =
     \<lparr>user_id = userId,
      transaction_type = (if isWin then game_win else game_spend),
      token_amount = toFixed 2 amount,
      game_type = gameType\<rparr>"

text \<open>
  \<open>recordGameTransaction\<close>: read the persisted balance, refuse a spend above it,
  insert the transaction row, then write the new balance through \<open>updateTokenBalance\<close>.
  An exception leaves the store as it is at the point of the throw.
\<close>

definition recordGameTransaction ::
  "faults \<Rightarrow> user_id \<Rightarrow> game_type \<Rightarrow> real \<Rightarrow> bool \<Rightarrow> ledger \<Rightarrow> (error + unit) \<times> ledger" where
  "recordGameTransaction f userId gameType amount isWin st =
     (if select_fails f then (Inl Failed_to_get_current_balance, st)
      else case profiles st userId of
        None \<Rightarrow> (Inl Failed_to_get_current_balance, st)
      | Some currentBalance \<Rightarrow>
          if \<not> isWin \<and> amount > currentBalance then (Inl Insufficient_token_balance, st)
          else if insert_fails f then (Inl Failed_to_record_game_transaction, st)
          else
            let st1 = st\<lparr>token_transactions := token_transactions st @
                      [transaction_row userId gameType amount isWin]\<rparr>;
                newBalance = (if isWin then currentBalance + amount else currentBalance - amount)
            in case updateTokenBalance f userId newBalance st1 of
                 (Inl e, st2) \<Rightarrow> (Inl e, st2)
               | (Inr _, st2) \<Rightarrow> (Inr (), st2\<lparr>cachedBalance := Some newBalance\<rparr>))"

text \<open>
  The two ledger operations of the specification are the two modes of
  \<open>recordGameTransaction\<close>. A caller catches a failure and goes on, so a sequence of
  operations runs every one of them, each with its own store failures.
\<close>

datatype ledger_op =
  Spend user_id game_type real
  | Credit user_id game_type real

fun ledger_step :: "faults \<times> ledger_op \<Rightarrow> ledger \<Rightarrow> ledger" where
  "ledger_step (f, Spend u g a) st = snd (recordGameTransaction f u g a False st)"
| "ledger_step (f, Credit u g a) st = snd (recordGameTransaction f u g a True st)"

fun run_ops :: "(faults \<times> ledger_op) list \<Rightarrow> ledger \<Rightarrow> ledger" where
  "run_ops [] st = st"
| "run_ops (x # xs) st = run_ops xs (ledger_step x st)"

definition balances_nonneg :: "ledger \<Rightarrow> bool" where
  "balances_nonneg st \<longleftrightarrow> (\<forall>u b. profiles st u = Some b \<longrightarrow> 0 \<le> b)"

section \<open>The game components\<close>

text \<open>
  Every game is a component that receives the \<open>tokenBalance\<close> held by the
  application shell as a property and reports a new one through \<open>onBalanceChange\<close>.
  A handler is a closure made at one rendering: it reads the \<open>gameState\<close> and the
  \<open>tokenBalance\<close> of that rendering for as long as it runs, also after it has itself
  called \<open>onBalanceChange\<close> or \<open>setGameState\<close>. In the model a handler takes the
  game state and the \<open>world\<close> at the moment it is invoked, runs to its end, and
  returns both as it leaves them. The user returned by \<open>supabase.auth.getUser()\<close>,
  the values of \<open>Math.random()\<close> and the failures of the store are inputs.
\<close>

record world =
  tokenBalance :: real
  store :: ledger

text \<open>
  The \<open>GameState\<close> interfaces of the five components share field names; the shared
  fields are put in parent records.
\<close>

record round_state =
  betAmount :: real
  lastWin :: "real option"

record multiplier_state = round_state +
  multiplier :: real

subsection \<open>Dice\<close>

record dice_state = multiplier_state +
  targetNumber :: real
  isRolling :: bool
  lastResult :: "real option"

definition dice_initial :: dice_state where
  "dice_initial = \<lparr>betAmount = 20, lastWin = None, multiplier = 2,
     targetNumber = 50, isRolling = False, lastResult = None\<rparr>"

text \<open>
  \<open>calculateMultiplier\<close> of the Dice component. Both of its callers pass a target
  clamped to \<open>[1, 98]\<close>; at \<open>0\<close> the source would give \<open>Infinity\<close>, which the
  reals do not have.
\<close>

definition dice_calculateMultiplier :: "real \<Rightarrow> real" where
  "dice_calculateMultiplier target = toFixed 4 (99 / target)"

text \<open>
  The slider (\<open>onMouseDown\<close> and \<open>handleMouseMove\<close>): the pointer position as a
  percentage of the width, clamped to \<open>[1, 98]\<close>, becomes the target, and the multiplier
  is recomputed. Nothing moves while a roll is running.
\<close>

definition setTarget :: "real \<Rightarrow> dice_state \<Rightarrow> dice_state" where
  "setTarget percentage gs =
     (if isRolling gs then gs
      else let newTarget = max 1 (min 98 percentage)
           in gs\<lparr>targetNumber := newTarget, multiplier := dice_calculateMultiplier newTarget\<rparr>)"

definition dice_won :: "real \<Rightarrow> dice_state \<Rightarrow> bool" where
  "dice_won random gs \<longleftrightarrow> random * 100 \<le> targetNumber gs"

text \<open>
  \<open>rollDice\<close>. \<open>f1\<close>, \<open>f2\<close>, \<open>f3\<close> are the store failures of the spend, of the win
  record and of the final balance write; \<open>random\<close> is the draw of the last tick (the
  nineteen draws before it only animate the number shown). An exception in the timer
  callback is not caught there: the state stays as it was when it was thrown, with
  \<open>isRolling\<close> set.
\<close>

definition rollDice ::
  "user_id option \<Rightarrow> faults \<Rightarrow> faults \<Rightarrow> faults \<Rightarrow> real \<Rightarrow> dice_state \<Rightarrow> world
     \<Rightarrow> dice_state \<times> world" where
  "rollDice user f1 f2 f3 random gs w =
     (if betAmount gs \<le> 0 \<or> betAmount gs > tokenBalance w \<or> isRolling gs then (gs, w)
      else case user of
        None \<Rightarrow> (gs, w)
      | Some uid \<Rightarrow>
         (case recordGameTransaction f1 uid dice (betAmount gs) False (store w) of
            (Inl e, db1) \<Rightarrow> (gs\<lparr>isRolling := False\<rparr>, w\<lparr>store := db1\<rparr>)
          | (Inr _, db1) \<Rightarrow>
              let finalResult = random * 100;
                  won = dice_won random gs;
                  winnings = (if won then toFixed 2 (betAmount gs * multiplier gs) else 0)
              in if won then
                   let newBalance = toFixed 2 (tokenBalance w + winnings) in
                   (case recordGameTransaction f2 uid dice (winnings - betAmount gs) True db1 of
                      (Inl e, db2) \<Rightarrow>
                        (gs\<lparr>isRolling := True\<rparr>, \<lparr>tokenBalance = newBalance, store = db2\<rparr>)
                    | (Inr _, db2) \<Rightarrow>
                        (case updateTokenBalance f3 uid newBalance db2 of
                           (Inl e, db3) \<Rightarrow>
                             (gs\<lparr>isRolling := True\<rparr>, \<lparr>tokenBalance = newBalance, store = db3\<rparr>)
                         | (Inr _, db3) \<Rightarrow>
                             (gs\<lparr>isRolling := False, lastResult := Some finalResult,
                                 lastWin := Some (winnings - betAmount gs)\<rparr>,
                              \<lparr>tokenBalance = newBalance, store = db3\<rparr>)))
                 else
                   (case updateTokenBalance f3 uid (tokenBalance w - betAmount gs) db1 of
                      (Inl e, db2) \<Rightarrow>
                        (gs\<lparr>isRolling := True\<rparr>,
                         \<lparr>tokenBalance = tokenBalance w - betAmount gs, store = db2\<rparr>)
                    | (Inr _, db2) \<Rightarrow>
                        (gs\<lparr>isRolling := False, lastResult := Some finalResult, lastWin := None\<rparr>,
                         \<lparr>tokenBalance = tokenBalance w - betAmount gs, store = db2\<rparr>))))"

subsection \<open>Crash\<close>

definition HOUSE_EDGE :: real where
  "HOUSE_EDGE = 99 / 100"

text \<open>\<open>calculateCrashPoint\<close>, with the value of \<open>Math.random()\<close> as its argument.\<close>

definition calculateCrashPoint :: "real \<Rightarrow> real" where
  "calculateCrashPoint random =
     (let e = 2 ^ 32;
          h = of_int \<lfloor>random * e\<rfloor>
      in if h = 0 then 1
         else max 1 ((100 * e - h) / (e - h)) * HOUSE_EDGE)"

record crash_state = multiplier_state +
  isFlying :: bool
  crashed :: bool
  hasBet :: bool
  targetMultiplier :: real
  autoCashoutAt :: real
  cashedOut :: bool
  gamesPlayed :: nat
  winsInSession :: nat
  crashPointRef :: real

text \<open>
  The state of the component, with the reference \<open>crashPointRef\<close> as one more
  field. \<open>startGame\<close> spends the bet, then draws the crash point of the round.
\<close>

definition crash_startGame ::
  "user_id option \<Rightarrow> faults \<Rightarrow> real \<Rightarrow> crash_state \<Rightarrow> world \<Rightarrow> crash_state \<times> world" where
  "crash_startGame user f random gs w =
     (if betAmount gs \<le> 0 \<or> betAmount gs > tokenBalance w \<or> isFlying gs then (gs, w)
      else case user of
        None \<Rightarrow> (gs, w)
      | Some uid \<Rightarrow>
          (case recordGameTransaction f uid crash (betAmount gs) False (store w) of
             (Inl e, db1) \<Rightarrow> (gs\<lparr>isFlying := False\<rparr>, w\<lparr>store := db1\<rparr>)
           | (Inr _, db1) \<Rightarrow>
               (gs\<lparr>isFlying := True, crashed := False, hasBet := True, multiplier := 1,
                   lastWin := None, cashedOut := False, gamesPlayed := gamesPlayed gs + 1,
                   crashPointRef := calculateCrashPoint random\<rparr>,
                \<lparr>tokenBalance = toFixed 2 (tokenBalance w - betAmount gs), store = db1\<rparr>)))"

text \<open>
  \<open>cashout\<close> of the Crash component. \<open>f1\<close> and \<open>f2\<close> are the store failures of the
  win record and of the balance write. An exception is caught and only reported: the
  game state is then not touched, while \<open>onBalanceChange\<close> has already run.
\<close>

definition crash_cashout ::
  "user_id option \<Rightarrow> faults \<Rightarrow> faults \<Rightarrow> crash_state \<Rightarrow> world \<Rightarrow> crash_state \<times> world" where
  "crash_cashout user f1 f2 gs w =
     (if \<not> hasBet gs \<or> crashed gs \<or> cashedOut gs then (gs, w)
      else case user of
        None \<Rightarrow> (gs, w)
      | Some uid \<Rightarrow>
          let winnings = toFixed 2 (betAmount gs * multiplier gs);
              profit = toFixed 2 (winnings - betAmount gs);
              newBalance = toFixed 2 (tokenBalance w + winnings)
          in case recordGameTransaction f1 uid crash profit True (store w) of
               (Inl e, db1) \<Rightarrow> (gs, \<lparr>tokenBalance = newBalance, store = db1\<rparr>)
             | (Inr _, db1) \<Rightarrow>
                 (case updateTokenBalance f2 uid newBalance db1 of
                    (Inl e, db2) \<Rightarrow> (gs, \<lparr>tokenBalance = newBalance, store = db2\<rparr>)
                  | (Inr _, db2) \<Rightarrow>
                      (gs\<lparr>hasBet := False, lastWin := Some profit, cashedOut := True,
                          winsInSession := winsInSession gs + 1\<rparr>,
                       \<lparr>tokenBalance = newBalance, store = db2\<rparr>)))"

text \<open>A Crash round is settled once the guard of \<open>cashout\<close> turns it away.\<close>

definition crash_settled :: "crash_state \<Rightarrow> bool" where
  "crash_settled gs \<longleftrightarrow> \<not> hasBet gs \<or> crashed gs \<or> cashedOut gs"

definition crash_initial :: crash_state where
  "crash_initial = \<lparr>betAmount = 20, lastWin = None, multiplier = 1,
     isFlying = False, crashed = False, hasBet = False, targetMultiplier = 2,
     autoCashoutAt = 0, cashedOut = False, gamesPlayed = 0, winsInSession = 0,
     crashPointRef = 1\<rparr>"

subsection \<open>Mines\<close>

datatype cell = hidden | revealed

text \<open>
  A position is the pair behind the source's key \<open>`${x},${y}`\<close>; the two \<open>Set\<close>s
  of positions are lists in insertion order, the order in which \<open>forEach\<close> visits them.
\<close>

type_synonym pos = "nat \<times> nat"

record mines_state = round_state +
  mineCount :: int
  gemCount :: int
  grid :: "cell list list"
  minePositions :: "pos list"
  gemPositions :: "pos list"
  isPlaying :: bool
  revealedCount :: int
  currentMultiplier :: real
  autoMode :: bool
  autoStopAt :: real

definition GRID_SIZE :: int where
  "GRID_SIZE = 5"

text \<open>
  \<open>calculateMultiplier\<close> of the Mines component. The selects of the component keep
  \<open>gems\<close> in \<open>1..24\<close>, and \<open>revealed\<close> counts revealed gems, so the two divisors are
  not zero; with \<open>gems = 0\<close> the source would give \<open>Infinity\<close>.
\<close>

definition mines_calculateMultiplier :: "int \<Rightarrow> int \<Rightarrow> int \<Rightarrow> real" where
  "mines_calculateMultiplier revealedN minesN gemsN =
     (let probability = of_int gemsN / of_int (GRID_SIZE * GRID_SIZE - revealedN)
      in toFixed 2 ((99 / 100) / probability))"

definition grid_at :: "cell list list \<Rightarrow> nat \<Rightarrow> nat \<Rightarrow> cell option" where
  "grid_at g row col =
     (if row < length g \<and> col < length (g ! row) then Some (g ! row ! col) else None)"

text \<open>
  \<open>newGrid[x][y] = 'revealed'\<close>. The positions written this way are the clicked tile,
  already read from the grid, and the placed cells, which \<open>initializeGame\<close> takes
  from \<open>Math.floor\<close> of a draw in \<open>[0, 1)\<close> times 5: all inside the grid.
\<close>

definition reveal :: "pos \<Rightarrow> cell list list \<Rightarrow> cell list list" where
  "reveal p g = g[fst p := (g ! fst p)[snd p := revealed]]"

definition reveal_each :: "pos list \<Rightarrow> cell list list \<Rightarrow> cell list list" where
  "reveal_each ps g = fold reveal ps g"

definition mines_initial :: mines_state where
  "mines_initial = \<lparr>betAmount = 20, lastWin = None, mineCount = 10, gemCount = 15,
     grid = replicate 5 (replicate 5 hidden), minePositions = [], gemPositions = [],
     isPlaying = False, revealedCount = 0, currentMultiplier = 1,
     autoMode = False, autoStopAt = 2\<rparr>"

text \<open>
  \<open>initializeGame\<close> places by rejection: it draws a cell, keeps it when it is free,
  and goes on until it has the wanted number. \<open>place\<close> is that loop over a finite
  supply of drawn cells; it gives \<open>None\<close> when the supply ends before the loop does.
  The mines are placed first, the gems on cells that hold no mine.
\<close>

definition drawn_cell :: "real \<times> real \<Rightarrow> pos" where
  "drawn_cell d = (nat \<lfloor>fst d * of_int GRID_SIZE\<rfloor>, nat \<lfloor>snd d * of_int GRID_SIZE\<rfloor>)"

fun place :: "(real \<times> real) list \<Rightarrow> int \<Rightarrow> pos list \<Rightarrow> pos list
    \<Rightarrow> (pos list \<times> (real \<times> real) list) option" where
  "place [] n taken acc = (if int (length acc) < n then None else Some (acc, []))"
| "place (d # ds) n taken acc =
     (if int (length acc) < n
      then (if drawn_cell d \<in> set taken \<or> drawn_cell d \<in> set acc
            then place ds n taken acc
            else place ds n taken (acc @ [drawn_cell d]))
      else Some (acc, d # ds))"

definition initializeGame ::
  "(real \<times> real) list \<Rightarrow> mines_state \<Rightarrow> (cell list list \<times> pos list \<times> pos list) option" where
  "initializeGame draws gs =
     (case place draws (mineCount gs) [] [] of
        None \<Rightarrow> None
      | Some (placedMines, rest) \<Rightarrow>
          (case place rest (gemCount gs) placedMines [] of
             None \<Rightarrow> None
           | Some (placedGems, _) \<Rightarrow>
               Some (replicate 5 (replicate 5 hidden), placedMines, placedGems)))"

text \<open>
  \<open>startGame\<close> of the Mines component; \<open>None\<close> only when the draws run out
  inside \<open>initializeGame\<close>. A bet of \<open>0\<close> starts a round without touching the
  ledger.
\<close>

definition mines_startGame ::
  "user_id option \<Rightarrow> faults \<Rightarrow> (real \<times> real) list \<Rightarrow> mines_state \<Rightarrow> world
     \<Rightarrow> (mines_state \<times> world) option" where
  "mines_startGame user f draws gs w =
     (if betAmount gs < 0 \<or> betAmount gs > tokenBalance w then Some (gs, w)
      else if mineCount gs + gemCount gs > GRID_SIZE * GRID_SIZE then Some (gs, w)
      else case user of
        None \<Rightarrow> Some (gs, w)
      | Some uid \<Rightarrow>
          (case (if betAmount gs > 0
                 then recordGameTransaction f uid mines (betAmount gs) False (store w)
                 else (Inr (), store w)) of
             (Inl e, db1) \<Rightarrow> Some (gs, w\<lparr>store := db1\<rparr>)
           | (Inr _, db1) \<Rightarrow>
               (case initializeGame draws gs of
                  None \<Rightarrow> None
                | Some (newGrid, placedMines, placedGems) \<Rightarrow>
                    Some (gs\<lparr>grid := newGrid, minePositions := placedMines,
                             gemPositions := placedGems, isPlaying := True,
                             revealedCount := 0, currentMultiplier := 1, lastWin := None\<rparr>,
                          \<lparr>tokenBalance =
                             (if betAmount gs > 0
                              then toFixed 2 (tokenBalance w - betAmount gs)
                              else tokenBalance w),
                           store = db1\<rparr>))))"

text \<open>
  \<open>revealTile\<close>. A tile that is not hidden, or a coordinate outside the grid, leaves
  everything as it is. \<open>f1\<close> and \<open>f2\<close> are the store failures of the automatic
  cash-out.
\<close>

definition revealTile ::
  "user_id option \<Rightarrow> faults \<Rightarrow> faults \<Rightarrow> nat \<Rightarrow> nat \<Rightarrow> mines_state \<Rightarrow> world
     \<Rightarrow> mines_state \<times> world" where
  "revealTile user f1 f2 row col gs w =
     (if \<not> isPlaying gs \<or> grid_at (grid gs) row col \<noteq> Some hidden then (gs, w)
      else
        let isMine = (row, col) \<in> set (minePositions gs);
            isGem = (row, col) \<in> set (gemPositions gs);
            newGrid = reveal (row, col) (grid gs)
        in if isMine then
             (gs\<lparr>grid := reveal_each (gemPositions gs) (reveal_each (minePositions gs) newGrid),
                 isPlaying := False, lastWin := None\<rparr>, w)
           else if \<not> isGem then (gs\<lparr>grid := newGrid\<rparr>, w)
           else
             let newRevealedCount = revealedCount gs + 1;
                 newMultiplier =
                   mines_calculateMultiplier newRevealedCount (mineCount gs) (gemCount gs)
             in case user of
                  None \<Rightarrow> (gs, w)
                | Some uid \<Rightarrow>
                    if autoMode gs \<and> newMultiplier \<ge> autoStopAt gs then
                      let winnings = toFixed 2 (betAmount gs * newMultiplier);
                          profit = toFixed 2 (winnings - betAmount gs);
                          settled = gs\<lparr>grid := newGrid, isPlaying := False,
                                       revealedCount := newRevealedCount,
                                       currentMultiplier := newMultiplier,
                                       lastWin := Some profit\<rparr>
                      in if betAmount gs > 0 then
                           let finalBalance = toFixed 2 (tokenBalance w + winnings) in
                           (case recordGameTransaction f1 uid mines profit True (store w) of
                              (Inl e, db1) \<Rightarrow> (gs, \<lparr>tokenBalance = finalBalance, store = db1\<rparr>)
                            | (Inr _, db1) \<Rightarrow>
                                (case updateTokenBalance f2 uid finalBalance db1 of
                                   (Inl e, db2) \<Rightarrow>
                                     (gs, \<lparr>tokenBalance = finalBalance, store = db2\<rparr>)
                                 | (Inr _, db2) \<Rightarrow>
                                     (settled, \<lparr>tokenBalance = finalBalance, store = db2\<rparr>)))
                         else (settled, w)
                    else (gs\<lparr>grid := newGrid, revealedCount := newRevealedCount,
                              currentMultiplier := newMultiplier\<rparr>, w))"

text \<open>\<open>cashout\<close> of the Mines component.\<close>

definition mines_cashout ::
  "user_id option \<Rightarrow> faults \<Rightarrow> faults \<Rightarrow> mines_state \<Rightarrow> world \<Rightarrow> mines_state \<times> world" where
  "mines_cashout user f1 f2 gs w =
     (if \<not> isPlaying gs \<or> revealedCount gs = 0 then (gs, w)
      else case user of
        None \<Rightarrow> (gs, w)
      | Some uid \<Rightarrow>
          let winnings = toFixed 2 (betAmount gs * currentMultiplier gs);
              profit = toFixed 2 (winnings - betAmount gs);
              settled = gs\<lparr>grid := reveal_each (gemPositions gs)
                                      (reveal_each (minePositions gs) (grid gs)),
                           isPlaying := False, lastWin := Some profit\<rparr>
          in if betAmount gs > 0 then
               let finalBalance = toFixed 2 (tokenBalance w + winnings) in
               (case recordGameTransaction f1 uid mines profit True (store w) of
                  (Inl e, db1) \<Rightarrow> (gs, \<lparr>tokenBalance = finalBalance, store = db1\<rparr>)
                | (Inr _, db1) \<Rightarrow>
                    (case updateTokenBalance f2 uid finalBalance db1 of
                       (Inl e, db2) \<Rightarrow> (gs, \<lparr>tokenBalance = finalBalance, store = db2\<rparr>)
                     | (Inr _, db2) \<Rightarrow> (settled, \<lparr>tokenBalance = finalBalance, store = db2\<rparr>)))
             else (settled, w))"

text \<open>A Mines round is settled once it is no longer playing.\<close>

definition mines_settled :: "mines_state \<Rightarrow> bool" where
  "mines_settled gs \<longleftrightarrow> \<not> isPlaying gs"

text \<open>
  \<open>revealAllGems\<close>, run by the effect that watches \<open>isPlaying\<close> and \<open>mineCount\<close>
  when a round starts with at most \<open>AUTO_REVEAL_THRESHOLD\<close> mines: every hidden gem
  is revealed and counted, and the round is paid at the multiplier of that count.
\<close>

definition AUTO_REVEAL_THRESHOLD :: int where
  "AUTO_REVEAL_THRESHOLD = 2"

definition reveal_hidden :: "pos list \<Rightarrow> cell list list \<Rightarrow> cell list list \<times> int" where
  "reveal_hidden ps g =
     fold (\<lambda>p (newGrid, revealedGems).
             if grid_at newGrid (fst p) (snd p) = Some hidden
             then (reveal p newGrid, revealedGems + 1)
             else (newGrid, revealedGems)) ps (g, 0)"

definition revealAllGems ::
  "user_id option \<Rightarrow> faults \<Rightarrow> faults \<Rightarrow> mines_state \<Rightarrow> world \<Rightarrow> mines_state \<times> world" where
  "revealAllGems user f1 f2 gs w =
     (case user of
        None \<Rightarrow> (gs, w)
      | Some uid \<Rightarrow>
          let (newGrid, revealedGems) = reveal_hidden (gemPositions gs) (grid gs);
              newMultiplier = mines_calculateMultiplier revealedGems (mineCount gs) (gemCount gs);
              winnings = toFixed 2 (betAmount gs * newMultiplier);
              profit = toFixed 2 (winnings - betAmount gs);
              settled = gs\<lparr>grid := reveal_each (minePositions gs) newGrid, isPlaying := False,
                           revealedCount := revealedGems, currentMultiplier := newMultiplier,
                           lastWin := Some profit\<rparr>
          in if betAmount gs > 0 then
               let finalBalance = toFixed 2 (tokenBalance w + winnings) in
               (case recordGameTransaction f1 uid mines profit True (store w) of
                  (Inl e, db1) \<Rightarrow> (gs, \<lparr>tokenBalance = finalBalance, store = db1\<rparr>)
                | (Inr _, db1) \<Rightarrow>
                    (case updateTokenBalance f2 uid finalBalance db1 of
                       (Inl e, db2) \<Rightarrow> (gs, \<lparr>tokenBalance = finalBalance, store = db2\<rparr>)
                     | (Inr _, db2) \<Rightarrow> (settled, \<lparr>tokenBalance = finalBalance, store = db2\<rparr>)))
             else (settled, w))"

definition autoReveal ::
  "user_id option \<Rightarrow> faults \<Rightarrow> faults \<Rightarrow> mines_state \<Rightarrow> world \<Rightarrow> mines_state \<times> world" where
  "autoReveal user f1 f2 gs w =
     (if isPlaying gs \<and> mineCount gs \<le> AUTO_REVEAL_THRESHOLD
      then revealAllGems user f1 f2 gs w else (gs, w))"

text \<open>
  A run of tile clicks, each with the store failures it would meet, and the number of
  gem cells that the grid shows as revealed.
\<close>

fun reveal_tiles ::
  "user_id option \<Rightarrow> (faults \<times> faults \<times> nat \<times> nat) list \<Rightarrow> mines_state \<Rightarrow> world
     \<Rightarrow> mines_state \<times> world" where
  "reveal_tiles user [] gs w = (gs, w)"
| "reveal_tiles user ((f1, f2, row, col) # evs) gs w =
     (case revealTile user f1 f2 row col gs w of (gs', w') \<Rightarrow> reveal_tiles user evs gs' w')"

definition revealed_gems :: "mines_state \<Rightarrow> nat" where
  "revealed_gems gs =
     length (filter (\<lambda>p. grid_at (grid gs) (fst p) (snd p) = Some revealed) (gemPositions gs))"

text \<open>
  What holds of a round from its start on: the gems are placed on distinct cells; while
  the round is playing, \<open>revealedCount\<close> is the number of gem cells revealed; and
  once it is positive, \<open>currentMultiplier\<close> is \<open>calculateMultiplier\<close> of it.
\<close>

definition mines_inv :: "mines_state \<Rightarrow> bool" where
  "mines_inv gs \<longleftrightarrow>
     distinct (gemPositions gs) \<and> 0 \<le> revealedCount gs \<and>
     (if isPlaying gs then revealedCount gs = int (revealed_gems gs) else True) \<and>
     (if 0 < revealedCount gs
      then currentMultiplier gs =
             mines_calculateMultiplier (revealedCount gs) (mineCount gs) (gemCount gs)
      else True)"

subsection \<open>Blackjack\<close>

datatype suit = Spades | Hearts | Diamonds | Clubs

text \<open>The field \<open>value\<close> of a card is called \<open>face\<close> here.\<close>

record card =
  suit :: suit
  face :: string
  numericValue :: int

definition parseInt :: "string \<Rightarrow> int" where
  "parseInt s = foldl (\<lambda>n c. 10 * n + (int (of_char c) - 48)) 0 s"

text \<open>The card that \<open>createDeck\<close> pushes for a suit and a face.\<close>

definition new_card :: "suit \<Rightarrow> string \<Rightarrow> card" where
  "new_card s v =
     \<lparr>suit = s, face = v,
      numericValue = (if v = ''A'' then 11
                      else if v \<in> set [''K'', ''Q'', ''J''] then 10
                      else parseInt v)\<rparr>"

text \<open>
  \<open>calculateScore\<close>: the sum of the numeric values, then ten off for an ace as long as
  the score is above 21 and an ace is left.
\<close>

fun soften :: "int \<Rightarrow> nat \<Rightarrow> int" where
  "soften score 0 = score"
| "soften score (Suc aces) = (if score > 21 then soften (score - 10) aces else score)"

definition calculateScore :: "card list \<Rightarrow> int" where
  "calculateScore hand =
     soften (sum_list (map numericValue hand)) (length (filter (\<lambda>c. face c = ''A'') hand))"

datatype gamePhase = betting | playing | dealerTurn | complete

record blackjack_state = round_state +
  playerHand :: "card list"
  dealerHand :: "card list"
  deck :: "card list"
  gamePhase :: gamePhase
  playerScore :: int
  dealerScore :: int

text \<open>\<open>dealCard\<close> pops the last card; an empty deck throws.\<close>

definition dealCard :: "card list \<Rightarrow> (card \<times> card list) option" where
  "dealCard d = (if d = [] then None else Some (last d, butlast d))"

text \<open>
  The dealer's loop in \<open>handleDealerTurn\<close>: draw while the score is below 17.
  \<open>None\<close> is the exception of \<open>dealCard\<close> on an empty deck.
\<close>

function dealer_draws :: "card list \<Rightarrow> card list \<Rightarrow> (card list \<times> card list) option" where
  "dealer_draws hand d =
     (if calculateScore hand < 17
      then (case dealCard d of
              None \<Rightarrow> None
            | Some (c, newDeck) \<Rightarrow> dealer_draws (hand @ [c]) newDeck)
      else Some (hand, d))"
  by pat_completeness auto
termination
  by (relation "measure (\<lambda>(hand, d). length d)")
    (auto simp: dealCard_def split: if_splits)

text \<open>
  The comparison in \<open>handleDealerTurn\<close>, on the player's hand and the dealer's final
  hand: the value of \<open>playerWins\<close>.
\<close>

definition playerWins :: "card list \<Rightarrow> card list \<Rightarrow> bool" where
  "playerWins pHand dHand =
     (let pScore = calculateScore pHand;
          dScore = calculateScore dHand;
          playerBusted = pScore > 21;
          dealerBusted = dScore > 21;
          playerBlackjack = (pScore = 21 \<and> length pHand = 2);
          dealerBlackjack = (dScore = 21 \<and> length dHand = 2)
      in if playerBusted then False
         else if dealerBusted then True
         else if playerBlackjack \<and> \<not> dealerBlackjack then True
         else if \<not> playerBlackjack \<and> dealerBlackjack then False
         else pScore > dScore)"

definition playerBlackjack :: "card list \<Rightarrow> bool" where
  "playerBlackjack pHand \<longleftrightarrow> calculateScore pHand = 21 \<and> length pHand = 2"

text \<open>
  \<open>handleGameEnd\<close>. Only a win touches the ledger; a round that is not won ends with
  \<open>lastWin\<close> cleared and nothing credited.
\<close>

definition handleGameEnd ::
  "user_id option \<Rightarrow> faults \<Rightarrow> faults \<Rightarrow> bool \<Rightarrow> bool \<Rightarrow> blackjack_state \<Rightarrow> world
     \<Rightarrow> blackjack_state \<times> world" where
  "handleGameEnd user f1 f2 won isBlackjack gs w =
     (case user of
        None \<Rightarrow> (gs, w)
      | Some uid \<Rightarrow>
          if won then
            let winnings = (if isBlackjack then toFixed 2 (betAmount gs * (5 / 2))
                            else toFixed 2 (betAmount gs * 2));
                profit = toFixed 2 (winnings - betAmount gs);
                newBalance = toFixed 2 (tokenBalance w + winnings)
            in case recordGameTransaction f1 uid blackjack profit True (store w) of
                 (Inl e, db1) \<Rightarrow> (gs, \<lparr>tokenBalance = newBalance, store = db1\<rparr>)
               | (Inr _, db1) \<Rightarrow>
                   (case updateTokenBalance f2 uid newBalance db1 of
                      (Inl e, db2) \<Rightarrow> (gs, \<lparr>tokenBalance = newBalance, store = db2\<rparr>)
                    | (Inr _, db2) \<Rightarrow>
                        (gs\<lparr>lastWin := Some (winnings - betAmount gs)\<rparr>,
                         \<lparr>tokenBalance = newBalance, store = db2\<rparr>))
          else (gs\<lparr>lastWin := None\<rparr>, w))"

text \<open>
  \<open>handleDealerTurn\<close>, on the state of the rendering in which \<open>stand\<close> was clicked.
\<close>

definition handleDealerTurn ::
  "user_id option \<Rightarrow> faults \<Rightarrow> faults \<Rightarrow> blackjack_state \<Rightarrow> world \<Rightarrow> blackjack_state \<times> world" where
  "handleDealerTurn user f1 f2 gs w =
     (case dealer_draws (dealerHand gs) (deck gs) of
        None \<Rightarrow> (gs, w)
      | Some (currentDealerHand, currentDeck) \<Rightarrow>
          handleGameEnd user f1 f2
            (playerWins (playerHand gs) currentDealerHand) (playerBlackjack (playerHand gs))
            (gs\<lparr>dealerHand := currentDealerHand, deck := currentDeck,
                dealerScore := calculateScore currentDealerHand, gamePhase := complete\<rparr>) w)"

definition stand ::
  "user_id option \<Rightarrow> faults \<Rightarrow> faults \<Rightarrow> blackjack_state \<Rightarrow> world \<Rightarrow> blackjack_state \<times> world" where
  "stand user f1 f2 gs w =
     (if gamePhase gs \<noteq> playing then (gs, w) else handleDealerTurn user f1 f2 gs w)"

text \<open>
  \<open>startGame\<close> of the Blackjack component: the bet is spent, two cards each are dealt
  from the end of the deck, player first. When the player's two cards score 21 it calls
  \<open>handleDealerTurn\<close> at once; that call belongs to the rendering of the click, so
  it reads the hands, the deck and the \<open>tokenBalance\<close> of before the deal, and its
  updates land on the dealt state.
\<close>

definition deal_four :: "card list \<Rightarrow> (card list \<times> card list \<times> card list) option" where
  "deal_four d =
     (case dealCard d of
        None \<Rightarrow> None
      | Some (c1, d1) \<Rightarrow>
          (case dealCard d1 of
             None \<Rightarrow> None
           | Some (c2, d2) \<Rightarrow>
               (case dealCard d2 of
                  None \<Rightarrow> None
                | Some (c3, d3) \<Rightarrow>
                    (case dealCard d3 of
                       None \<Rightarrow> None
                     | Some (c4, d4) \<Rightarrow> Some ([c1, c3], [c2, c4], d4)))))"

definition blackjack_startGame ::
  "user_id option \<Rightarrow> faults \<Rightarrow> faults \<Rightarrow> faults \<Rightarrow> blackjack_state \<Rightarrow> world
     \<Rightarrow> blackjack_state \<times> world" where
  "blackjack_startGame user f f1 f2 gs w =
     (if betAmount gs \<le> 0 \<or> betAmount gs > tokenBalance w then (gs, w)
      else case user of
        None \<Rightarrow> (gs, w)
      | Some uid \<Rightarrow>
          (case recordGameTransaction f uid blackjack (betAmount gs) False (store w) of
             (Inl e, db1) \<Rightarrow> (gs, w\<lparr>store := db1\<rparr>)
           | (Inr _, db1) \<Rightarrow>
               let w1 = \<lparr>tokenBalance = toFixed 2 (tokenBalance w - betAmount gs), store = db1\<rparr>
               in case deal_four (deck gs) of
                    None \<Rightarrow> (gs, w1)
                  | Some (pHand, dHand, newDeck) \<Rightarrow>
                      let dealt = gs\<lparr>playerHand := pHand, dealerHand := dHand, deck := newDeck,
                                     gamePhase := playing, playerScore := calculateScore pHand,
                                     dealerScore := calculateScore dHand, lastWin := None\<rparr>
                      in if calculateScore pHand = 21 then
                           (case dealer_draws (dealerHand gs) (deck gs) of
                              None \<Rightarrow> (dealt, w1)
                            | Some (currentDealerHand, currentDeck) \<Rightarrow>
                                let won = playerWins (playerHand gs) currentDealerHand;
                                    ended = handleGameEnd user f1 f2 won
                                      (playerBlackjack (playerHand gs))
                                      (dealt\<lparr>dealerHand := currentDealerHand, deck := currentDeck,
                                             dealerScore := calculateScore currentDealerHand,
                                             gamePhase := complete\<rparr>)
                                      (w1\<lparr>tokenBalance := tokenBalance w\<rparr>)
                                in (fst ended, if won then snd ended else w1))
                         else (dealt, w1)))"

subsection \<open>Plinko\<close>

datatype risk = Low | Medium | High

definition CANVAS_WIDTH :: real where "CANVAS_WIDTH = 800"
definition PIN_RADIUS :: real where "PIN_RADIUS = 3"
definition BALL_RADIUS :: real where "BALL_RADIUS = 5"
definition PIN_SPACING :: real where "PIN_SPACING = 35"
definition GRAVITY :: real where "GRAVITY = 1 / 4"
definition BOUNCE_DAMPING :: real where "BOUNCE_DAMPING = 6 / 10"

fun MULTIPLIERS :: "risk \<Rightarrow> real list" where
  "MULTIPLIERS Low = [56 / 10, 23 / 10, 16 / 10, 14 / 10, 13 / 10, 11 / 10, 1, 5 / 10, 3 / 10,
                     5 / 10, 1, 11 / 10, 13 / 10, 14 / 10, 16 / 10, 23 / 10, 56 / 10]"
| "MULTIPLIERS Medium = [112 / 10, 34 / 10, 21 / 10, 16 / 10, 13 / 10, 11 / 10, 9 / 10, 4 / 10,
                        2 / 10, 4 / 10, 9 / 10, 11 / 10, 13 / 10, 16 / 10, 21 / 10, 34 / 10,
                        112 / 10]"
| "MULTIPLIERS High = [224 / 10, 45 / 10, 26 / 10, 18 / 10, 13 / 10, 1, 7 / 10, 3 / 10, 1 / 10,
                      3 / 10, 7 / 10, 1, 13 / 10, 18 / 10, 26 / 10, 45 / 10, 224 / 10]"

text \<open>An entry of \<open>RISK_DISTRIBUTIONS\<close> is \<open>((range[0], range[1]), multiplier)\<close>.\<close>

fun RISK_DISTRIBUTIONS :: "risk \<Rightarrow> ((real \<times> real) \<times> real) list" where
  "RISK_DISTRIBUTIONS Low =
     [((0, 5 / 100), 56 / 10), ((5 / 100, 15 / 100), 23 / 10), ((15 / 100, 30 / 100), 16 / 10),
      ((30 / 100, 45 / 100), 14 / 10), ((45 / 100, 60 / 100), 13 / 10),
      ((60 / 100, 75 / 100), 11 / 10), ((75 / 100, 90 / 100), 1), ((90 / 100, 1), 5 / 10)]"
| "RISK_DISTRIBUTIONS Medium =
     [((0, 3 / 100), 112 / 10), ((3 / 100, 10 / 100), 34 / 10), ((10 / 100, 25 / 100), 21 / 10),
      ((25 / 100, 40 / 100), 16 / 10), ((40 / 100, 60 / 100), 13 / 10),
      ((60 / 100, 80 / 100), 11 / 10), ((80 / 100, 95 / 100), 9 / 10), ((95 / 100, 1), 4 / 10)]"
| "RISK_DISTRIBUTIONS High =
     [((0, 2 / 100), 224 / 10), ((2 / 100, 7 / 100), 45 / 10), ((7 / 100, 20 / 100), 26 / 10),
      ((20 / 100, 35 / 100), 18 / 10), ((35 / 100, 55 / 100), 13 / 10),
      ((55 / 100, 75 / 100), 1), ((75 / 100, 90 / 100), 7 / 10), ((90 / 100, 1), 3 / 10)]"

text \<open>\<open>Array.prototype.indexOf\<close>: the first index holding the value, or \<open>-1\<close>.\<close>

fun indexOf_from :: "int \<Rightarrow> real list \<Rightarrow> real \<Rightarrow> int" where
  "indexOf_from i [] v = - 1"
| "indexOf_from i (x # xs) v = (if x = v then i else indexOf_from (i + 1) xs v)"

definition indexOf :: "real list \<Rightarrow> real \<Rightarrow> int" where
  "indexOf xs v = indexOf_from 0 xs v"

text \<open>
  \<open>determineFinalBucket\<close>, with the value of \<open>Math.random()\<close> as an argument: the first
  entry whose range holds the draw gives its multiplier, and the bucket is the first
  place of that multiplier in the table; with no such entry, the middle bucket.
\<close>

definition first_interval :: "risk \<Rightarrow> real \<Rightarrow> ((real \<times> real) \<times> real) option" where
  "first_interval r random =
     find (\<lambda>e. random \<ge> fst (fst e) \<and> random < snd (fst e)) (RISK_DISTRIBUTIONS r)"

definition determineFinalBucket :: "risk \<Rightarrow> real \<Rightarrow> int" where
  "determineFinalBucket r random =
     (case first_interval r random of
        Some e \<Rightarrow> indexOf (MULTIPLIERS r) (snd e)
      | None \<Rightarrow> \<lfloor>real (length (MULTIPLIERS r)) / 2\<rfloor>)"

definition js_round :: "real \<Rightarrow> int" where
  "js_round v = \<lfloor>v + 1 / 2\<rfloor>"

text \<open>\<open>calculatePathToTarget\<close>: one direction (\<open>1\<close> or \<open>0\<close>) for each row of pins.\<close>

definition calculatePathToTarget :: "int \<Rightarrow> nat \<Rightarrow> nat list" where
  "calculatePathToTarget targetBucket rowsN =
     (let bucketWidth = CANVAS_WIDTH / real (length (MULTIPLIERS Medium));
          targetX = (of_int targetBucket + 1 / 2) * bucketWidth
      in fst (fold (\<lambda>row (path, currentX).
                      let pinCount = real row + 3;
                          startX = (CANVAS_WIDTH - (pinCount - 1) * PIN_SPACING) / 2;
                          progress = real row / real rowsN;
                          desiredX = currentX + (targetX - currentX) * progress;
                          pinIndex = of_int (js_round ((desiredX - startX) / PIN_SPACING));
                          pinX = startX + pinIndex * PIN_SPACING
                      in (path @ [if pinX < desiredX then 1 else 0], pinX))
                [0..<rowsN] ([], CANVAS_WIDTH / 2)))"

text \<open>
  The ball. The fields \<open>x\<close>, \<open>y\<close> and \<open>velocity.x\<close>, \<open>velocity.y\<close> of the source are
  \<open>pos_x\<close>, \<open>pos_y\<close>, \<open>vel_x\<close>, \<open>vel_y\<close> here.
\<close>

record ball =
  pos_x :: real
  pos_y :: real
  vel_x :: real
  vel_y :: real
  radius :: real
  active :: bool
  path :: "nat list"
  pathIndex :: nat

record plinko_state = round_state +
  risk :: risk
  rows :: nat
  isDropping :: bool
  currentBall :: "ball option"

definition plinko_initial :: plinko_state where
  "plinko_initial = \<lparr>betAmount = 20, lastWin = None, risk = Medium, rows = 16,
     isDropping = False, currentBall = None\<rparr>"

text \<open>
  \<open>dropBall\<close>. \<open>randomBucket\<close> is the draw of \<open>determineFinalBucket\<close> and
  \<open>randomStart\<close> the one that sets the starting abscissa; \<open>f1\<close> and \<open>f2\<close> are the store
  failures of the spend and of the balance write.
\<close>

definition dropBall ::
  "user_id option \<Rightarrow> faults \<Rightarrow> faults \<Rightarrow> real \<Rightarrow> real \<Rightarrow> plinko_state \<Rightarrow> world
     \<Rightarrow> plinko_state \<times> world" where
  "dropBall user f1 f2 randomBucket randomStart gs w =
     (if betAmount gs \<le> 0 then (gs, w)
      else if betAmount gs > tokenBalance w then (gs, w)
      else if isDropping gs then (gs, w)
      else case user of
        None \<Rightarrow> (gs, w)
      | Some uid \<Rightarrow>
          (case recordGameTransaction f1 uid plinko (betAmount gs) False (store w) of
             (Inl e, db1) \<Rightarrow> (gs, w\<lparr>store := db1\<rparr>)
           | (Inr _, db1) \<Rightarrow>
               let newBalance = toFixed 2 (tokenBalance w - betAmount gs) in
               (case updateTokenBalance f2 uid newBalance db1 of
                  (Inl e, db2) \<Rightarrow> (gs, w\<lparr>store := db2\<rparr>)
                | (Inr _, db2) \<Rightarrow>
                    let targetBucket = determineFinalBucket (risk gs) randomBucket;
                        newPath = calculatePathToTarget targetBucket (rows gs);
                        startX = CANVAS_WIDTH / 2 + (randomStart * 10 - 5)
                    in (gs\<lparr>isDropping := True, lastWin := None,
                           currentBall := Some \<lparr>pos_x = startX, pos_y = 50, vel_x = 0, vel_y = 0,
                             radius = BALL_RADIUS, active = True, path = newPath,
                             pathIndex = 0\<rparr>\<rparr>,
                        \<lparr>tokenBalance = newBalance, store = db2\<rparr>))))"

text \<open>
  The pins, in the order in which the two loops of \<open>updateBall\<close> visit them, each with
  its centre.
\<close>

definition pins :: "nat \<Rightarrow> (real \<times> real) list" where
  "pins rowsN =
     concat (map (\<lambda>row.
       map (\<lambda>pin. ((CANVAS_WIDTH - (real row + 3 - 1) * PIN_SPACING) / 2 + real pin * PIN_SPACING,
                    100 + real row * PIN_SPACING))
           [0..<row + 3])
       [0..<rowsN])"

text \<open>The pins below the first row.\<close>

definition later_pins :: "nat \<Rightarrow> (real \<times> real) list" where
  "later_pins rowsN =
     concat (map (\<lambda>row.
       map (\<lambda>pin. ((CANVAS_WIDTH - (real row + 3 - 1) * PIN_SPACING) / 2 + real pin * PIN_SPACING,
                    100 + real row * PIN_SPACING))
           [0..<row + 3])
       [1..<rowsN])"

text \<open>\<open>Math.atan2(y, x)\<close>.\<close>

definition atan2 :: "real \<Rightarrow> real \<Rightarrow> real" where
  "atan2 y x =
     (if x > 0 then arctan (y / x)
      else if x < 0 \<and> y \<ge> 0 then arctan (y / x) + pi
      else if x < 0 then arctan (y / x) - pi
      else if y > 0 then pi / 2
      else if y < 0 then - (pi / 2)
      else 0)"

text \<open>
  The values of \<open>Math.random()\<close> during the animation are a sequence \<open>draws\<close>; a
  counter says which one the next call returns. \<open>bounce\<close> is the body of the inner
  loop of \<open>updateBall\<close> for one pin.
\<close>

definition bounce :: "(nat \<Rightarrow> real) \<Rightarrow> real \<times> real \<Rightarrow> ball \<times> nat \<Rightarrow> ball \<times> nat" where
  "bounce draws pin bk =
     (let b = fst bk; k = snd bk;
          dx = pos_x b - fst pin;
          dy = pos_y b - snd pin;
          distance = sqrt (dx * dx + dy * dy)
      in if distance < radius b + PIN_RADIUS then
           let angle = atan2 dy dx;
               bounceAngle = angle + (draws k * (2 / 10) - 1 / 10);
               speed = sqrt (vel_x b * vel_x b + vel_y b * vel_y b)
           in (b\<lparr>vel_x := cos bounceAngle * speed * BOUNCE_DAMPING,
                  vel_y := \<bar>sin bounceAngle * speed * BOUNCE_DAMPING\<bar>,
                  pos_x := fst pin + (radius b + PIN_RADIUS + 1) * cos angle,
                  pos_y := snd pin + (radius b + PIN_RADIUS + 1) * sin angle\<rparr>, k + 1)
         else (b, k))"

text \<open>
  The motion of one frame: gravity, the turn prescribed by the path when the ball is
  level with the row it is due at, a random push, the move, the side walls, the pins.
\<close>

definition steer :: "ball \<Rightarrow> ball" where
  "steer b =
     (if pathIndex b < length (path b) then
        let pinY = 100 + real (pathIndex b) * PIN_SPACING in
        if \<bar>pos_y b - pinY\<bar> < 5
        then b\<lparr>vel_x := (if path b ! pathIndex b \<noteq> 0 then 1 else - 1) * 2,
                pathIndex := pathIndex b + 1\<rparr>
        else b
      else b)"

definition walls :: "ball \<Rightarrow> ball" where
  "walls b =
     (if pos_x b - radius b < 0
      then b\<lparr>pos_x := radius b, vel_x := vel_x b * (- BOUNCE_DAMPING)\<rparr>
      else if pos_x b + radius b > CANVAS_WIDTH
      then b\<lparr>pos_x := CANVAS_WIDTH - radius b, vel_x := vel_x b * (- BOUNCE_DAMPING)\<rparr>
      else b)"

definition move :: "(nat \<Rightarrow> real) \<Rightarrow> nat \<Rightarrow> ball \<times> nat \<Rightarrow> ball \<times> nat" where
  "move draws rowsN bk =
     (let b1 = (fst bk)\<lparr>vel_y := vel_y (fst bk) + GRAVITY\<rparr>;
          b2 = steer b1;
          b3 = b2\<lparr>vel_x := vel_x b2 + (draws (snd bk) - 1 / 2) * (1 / 10)\<rparr>;
          b4 = b3\<lparr>pos_x := pos_x b3 + vel_x b3, pos_y := pos_y b3 + vel_y b3\<rparr>;
          b5 = walls b4
      in fold (bounce draws) (pins rowsN) (b5, snd bk + 1))"

text \<open>
  The bucket under the ball and what it pays: the part of \<open>updateBall\<close> that runs once
  the ball is level with the buckets. A negative index would read \<open>undefined\<close>; the
  walls and the pins keep the ball right of \<open>0\<close>, and the model gives \<open>None\<close> there.
\<close>

definition landed_multiplier :: "risk \<Rightarrow> real \<Rightarrow> real option" where
  "landed_multiplier r bx =
     (let multipliers = MULTIPLIERS r;
          bucketWidth = CANVAS_WIDTH / real (length multipliers);
          bucketIndex = \<lfloor>bx / bucketWidth\<rfloor>;
          i = min bucketIndex (int (length multipliers) - 1)
      in if 0 \<le> i then Some (multipliers ! nat i) else None)"

text \<open>
  \<open>settle\<close> is the \<open>try\<close> block of \<open>updateBall\<close> under \<open>currentBall.y >= bucketY\<close>,
  with its \<open>catch\<close>: on an exception the round is closed without a payout and the
  shell balance is read back from the store when the read succeeds. \<open>f1\<close>, \<open>f2\<close>
  and \<open>f3\<close> are the store failures of the balance write, of the win record and of that
  read.
\<close>

definition settle_failed :: "user_id option \<Rightarrow> faults \<Rightarrow> plinko_state \<Rightarrow> world \<Rightarrow> plinko_state \<times> world" where
  "settle_failed user f3 gs w =
     (gs\<lparr>isDropping := False, currentBall := None\<rparr>,
      (case user of
         None \<Rightarrow> w
       | Some uid \<Rightarrow>
           (if select_fails f3 then w
            else case profiles (store w) uid of
                   None \<Rightarrow> w
                 | Some balance \<Rightarrow> w\<lparr>tokenBalance := balance\<rparr>)))"

definition settle ::
  "user_id option \<Rightarrow> faults \<Rightarrow> faults \<Rightarrow> faults \<Rightarrow> ball \<Rightarrow> plinko_state \<Rightarrow> world
     \<Rightarrow> plinko_state \<times> world" where
  "settle user f1 f2 f3 b gs w =
     (case user of
        None \<Rightarrow> settle_failed user f3 gs w
      | Some uid \<Rightarrow>
          (case landed_multiplier (risk gs) (pos_x b) of
             None \<Rightarrow> settle_failed user f3 gs w
           | Some m \<Rightarrow>
               let winnings = toFixed 2 (betAmount gs * m);
                   profit = toFixed 2 (winnings - betAmount gs);
                   newBalance = toFixed 2 (tokenBalance w + winnings)
               in case updateTokenBalance f1 uid newBalance (store w) of
                    (Inl e, db1) \<Rightarrow> settle_failed user f3 gs (w\<lparr>store := db1\<rparr>)
                  | (Inr _, db1) \<Rightarrow>
                      (case (if profit > 0
                             then recordGameTransaction f2 uid plinko profit True db1
                             else (Inr (), db1)) of
                         (Inl e, db2) \<Rightarrow>
                           settle_failed user f3 gs \<lparr>tokenBalance = newBalance, store = db2\<rparr>
                       | (Inr _, db2) \<Rightarrow>
                           (gs\<lparr>isDropping := False, lastWin := Some profit, currentBall := None\<rparr>,
                            \<lparr>tokenBalance = newBalance, store = db2\<rparr>))))"

text \<open>
  \<open>updateBall\<close>, one call per animation frame: nothing without an active ball;
  otherwise the motion, and the settlement once the ball is level with the buckets.
\<close>

definition updateBall ::
  "user_id option \<Rightarrow> faults \<Rightarrow> faults \<Rightarrow> faults \<Rightarrow> (nat \<Rightarrow> real)
     \<Rightarrow> (plinko_state \<times> world) \<times> nat \<Rightarrow> (plinko_state \<times> world) \<times> nat" where
  "updateBall user f1 f2 f3 draws s =
     (let gs = fst (fst s); w = snd (fst s); k = snd s in
      case currentBall gs of
        None \<Rightarrow> s
      | Some b \<Rightarrow>
          if \<not> active b then s
          else
            let bk = move draws (rows gs) (b, k);
                bucketY = 100 + real (rows gs) * PIN_SPACING
            in if pos_y (fst bk) \<ge> bucketY
               then (settle user f1 f2 f3 (fst bk) gs w, snd bk)
               else ((gs\<lparr>currentBall := Some (fst bk)\<rparr>, w), snd bk))"

text \<open>A number of frames, one after the other.\<close>

fun frames ::
  "nat \<Rightarrow> user_id option \<Rightarrow> faults \<Rightarrow> faults \<Rightarrow> faults \<Rightarrow> (nat \<Rightarrow> real)
     \<Rightarrow> (plinko_state \<times> world) \<times> nat \<Rightarrow> (plinko_state \<times> world) \<times> nat" where
  "frames 0 user f1 f2 f3 draws s = s"
| "frames (Suc n) user f1 f2 f3 draws s =
     frames n user f1 f2 f3 draws (updateBall user f1 f2 f3 draws s)"

text \<open>
  A pin is \<open>far\<close> from the ball when the ball cannot touch it. A ball is \<open>perched\<close>
  when it sits on the vertical through the middle pin of the first row, at or above
  the height at which it touches that pin, falling straight and no faster than a free
  fall from its starting height allows.
\<close>

definition far :: "ball \<Rightarrow> real \<times> real \<Rightarrow> bool" where
  "far b p \<longleftrightarrow> 8 \<le> \<bar>pos_x b - fst p\<bar> \<or> 8 \<le> \<bar>pos_y b - snd p\<bar>"

definition perched :: "ball \<Rightarrow> bool" where
  "perched b \<longleftrightarrow>
     active b \<and> radius b = 5 \<and> pos_x b = 400 \<and> vel_x b = 0 \<and> pathIndex b = 0 \<and>
     0 \<le> vel_y b \<and> 50 + 2 * (vel_y b * vel_y b) \<le> pos_y b \<and> pos_y b \<le> 92"

definition half_draws :: "nat \<Rightarrow> real" where
  "half_draws i = 1 / 2"

definition stuck :: "plinko_state \<Rightarrow> bool" where
  "stuck gs \<longleftrightarrow> isDropping gs \<and> 0 < rows gs \<and>
     (case currentBall gs of None \<Rightarrow> False | Some b \<Rightarrow> perched b)"

section \<open>Concrete stores and rounds\<close>

definition ledger0 :: ledger where
  "ledger0 = \<lparr>profiles = [''alice'' \<mapsto> 100], token_transactions = [], cachedBalance = Some 500\<rparr>"

definition world0 :: world where
  "world0 = \<lparr>tokenBalance = 100, store = ledger0\<rparr>"

text \<open>
  A Mines round in practice mode (bet 0) with 10 mines and 15 gems: the draws place
  the mines on the first two rows and the gems on the other three; the first gem
  clicked is the cell \<open>(2, 0)\<close>.
\<close>

definition draws25 :: "(real \<times> real) list" where
  "draws25 = [
     (1 / 10, 1 / 10), (1 / 10, 3 / 10), (1 / 10, 5 / 10), (1 / 10, 7 / 10), (1 / 10, 9 / 10),
     (3 / 10, 1 / 10), (3 / 10, 3 / 10), (3 / 10, 5 / 10), (3 / 10, 7 / 10), (3 / 10, 9 / 10),
     (5 / 10, 1 / 10), (5 / 10, 3 / 10), (5 / 10, 5 / 10), (5 / 10, 7 / 10), (5 / 10, 9 / 10),
     (7 / 10, 1 / 10), (7 / 10, 3 / 10), (7 / 10, 5 / 10), (7 / 10, 7 / 10), (7 / 10, 9 / 10),
     (9 / 10, 1 / 10), (9 / 10, 3 / 10), (9 / 10, 5 / 10), (9 / 10, 7 / 10), (9 / 10, 9 / 10)]"

definition mines_practice :: mines_state where
  "mines_practice = mines_initial\<lparr>betAmount := 0\<rparr>"

definition mines_started :: mines_state where
  "mines_started = mines_practice\<lparr>
     minePositions := [(0, 0), (0, 1), (0, 2), (0, 3), (0, 4), (1, 0), (1, 1), (1, 2), (1, 3), (1, 4)],
     gemPositions := [(2, 0), (2, 1), (2, 2), (2, 3), (2, 4), (3, 0), (3, 1), (3, 2), (3, 3), (3, 4),
                      (4, 0), (4, 1), (4, 2), (4, 3), (4, 4)],
     isPlaying := True\<rparr>"

definition mines_one_gem :: mines_state where
  "mines_one_gem = mines_started\<lparr>
     grid := [[hidden, hidden, hidden, hidden, hidden],
              [hidden, hidden, hidden, hidden, hidden],
              [revealed, hidden, hidden, hidden, hidden],
              [hidden, hidden, hidden, hidden, hidden],
              [hidden, hidden, hidden, hidden, hidden]],
     revealedCount := 1, currentMultiplier := 158 / 100\<rparr>"

text \<open>
  A Crash round in flight at multiplier 1.5 with the bet of 20 already spent, and a
  Mines round with one gem revealed and the same bet.
\<close>

definition crash_flying :: crash_state where
  "crash_flying = crash_initial\<lparr>isFlying := True, hasBet := True, multiplier := 3 / 2,
     gamesPlayed := 1\<rparr>"

definition world_after_bet :: world where
  "world_after_bet = \<lparr>tokenBalance = 80,
     store = \<lparr>profiles = [''alice'' \<mapsto> 80],
              token_transactions = [\<lparr>user_id = ''alice'', transaction_type = game_spend,
                                      token_amount = 20, game_type = crash\<rparr>],
              cachedBalance = Some 80\<rparr>\<rparr>"

definition mines_paid_round :: mines_state where
  "mines_paid_round = mines_one_gem\<lparr>betAmount := 20\<rparr>"

text \<open>
  Blackjack hands: ace and king; ten and eight on both sides, the bet of 20 spent.
\<close>

definition ace_king :: "card list" where
  "ace_king = [new_card Spades ''A'', new_card Spades ''K'']"

definition blackjack_tie :: blackjack_state where
  "blackjack_tie = \<lparr>betAmount = 20, lastWin = None,
     playerHand = [new_card Spades ''10'', new_card Diamonds ''8''],
     dealerHand = [new_card Hearts ''10'', new_card Clubs ''8''],
     deck = [new_card Clubs ''2'', new_card Clubs ''3''],
     gamePhase = playing, playerScore = 18, dealerScore = 18\<rparr>"

text \<open>
  A Plinko drop at medium risk: the bucket draw 0.01 selects bucket 0, the start draw
  0.5 puts the ball on the middle of the board.
\<close>

definition plinko_dropped :: "plinko_state \<times> world" where
  "plinko_dropped =
     dropBall (Some ''alice'') no_faults no_faults (1 / 100) (1 / 2) plinko_initial world0"

text \<open>
  A Blackjack table before the deal (the player will get ten and eight, and so will
  the dealer), and a Plinko ball lying over bucket 2 at the level of the buckets.
\<close>

definition blackjack_betting :: blackjack_state where
  "blackjack_betting = \<lparr>betAmount = 20, lastWin = None, playerHand = [], dealerHand = [],
     deck = [new_card Clubs ''2'', new_card Clubs ''3'', new_card Clubs ''8'',
             new_card Diamonds ''8'', new_card Hearts ''10'', new_card Spades ''10''],
     gamePhase = betting, playerScore = 0, dealerScore = 0\<rparr>"

definition ball_over_bucket_2 :: ball where
  "ball_over_bucket_2 = \<lparr>pos_x = 100, pos_y = 660, vel_x = 0, vel_y = 10, radius = 5,
     active = True, path = calculatePathToTarget 2 16, pathIndex = 16\<rparr>"

section \<open>Rounding\<close>

lemma toFixed_nonneg: "0 \<le> x \<Longrightarrow> 0 \<le> toFixed d x"
  by (simp add: toFixed_def)

lemma floor_half: "\<lfloor>1 / 2 :: real\<rfloor> = 0"
  by (simp add: floor_eq_iff)

lemma toFixed_zero: "toFixed d 0 = 0"
  by (simp add: toFixed_def floor_half)

lemma floor_add_half_int: "\<lfloor>(of_int n :: real) + 1 / 2\<rfloor> = n"
  by (simp add: floor_eq_iff)

text \<open>A value that already sits on the grid of \<open>d\<close> decimals is left as it is.\<close>

lemma toFixed_whole:
  assumes "x * 10 ^ d = of_int n"
  shows "toFixed d x = x"
proof -
  have pos: "(10::real) ^ d \<noteq> 0" by simp
  have x: "x = of_int n / 10 ^ d" using assms pos by (simp add: field_simps)
  have neg: "(- x) * 10 ^ d = of_int (- n)" using assms by simp
  show ?thesis
  proof (cases "10 ^ 21 \<le> \<bar>x\<bar>")
    case True
    then show ?thesis by (simp add: toFixed_def)
  next
    case small: False
    show ?thesis
    proof (cases "x < 0")
      case True
      have "\<lfloor>(- x) * 10 ^ d + 1 / 2\<rfloor> = - n" unfolding neg by (rule floor_add_half_int)
      then show ?thesis using small True x by (simp add: toFixed_def)
    next
      case False
      have "\<lfloor>x * 10 ^ d + 1 / 2\<rfloor> = n" unfolding assms by (rule floor_add_half_int)
      then show ?thesis using small False x by (simp add: toFixed_def)
    qed
  qed
qed

lemma round_half_close:
  fixes y :: real
  shows "\<bar>of_int \<lfloor>y + 1 / 2\<rfloor> - y\<bar> \<le> 1 / 2"
proof -
  have a: "of_int \<lfloor>y + 1 / 2\<rfloor> \<le> y + 1 / 2" by (rule of_int_floor_le)
  have b: "y + 1 / 2 < of_int \<lfloor>y + 1 / 2\<rfloor> + 1" by linarith
  show ?thesis using a b by linarith
qed

text \<open>The result is within half a unit of the last decimal, and on the grid.\<close>

lemma toFixed_close: "\<bar>toFixed d x - x\<bar> \<le> 1 / (2 * 10 ^ d)"
proof -
  have pos: "(0::real) < 10 ^ d" by simp
  have scale: "\<bar>of_int k / 10 ^ d - z\<bar> \<le> 1 / (2 * 10 ^ d)"
    if "\<bar>of_int k - z * 10 ^ d\<bar> \<le> 1 / 2" for k :: int and z :: real
  proof -
    have "\<bar>of_int k / 10 ^ d - z\<bar> = \<bar>of_int k - z * 10 ^ d\<bar> / 10 ^ d"
      using pos by (simp add: field_simps flip: abs_mult_pos)
    also have "\<dots> \<le> (1 / 2) / 10 ^ d"
      using that pos by (intro divide_right_mono) simp_all
    finally show ?thesis by simp
  qed
  show ?thesis
  proof (cases "10 ^ 21 \<le> \<bar>x\<bar>")
    case True
    then show ?thesis by (simp add: toFixed_def)
  next
    case small: False
    show ?thesis
    proof (cases "x < 0")
      case True
      have "\<bar>of_int \<lfloor>(- x) * 10 ^ d + 1 / 2\<rfloor> / 10 ^ d - (- x)\<bar> \<le> 1 / (2 * 10 ^ d)"
        by (rule scale) (rule round_half_close)
      then show ?thesis
        using small True by (simp add: toFixed_def abs_minus_commute add.commute)
    next
      case False
      have "\<bar>of_int \<lfloor>x * 10 ^ d + 1 / 2\<rfloor> / 10 ^ d - x\<bar> \<le> 1 / (2 * 10 ^ d)"
        by (rule scale) (rule round_half_close)
      then show ?thesis using small False by (simp add: toFixed_def)
    qed
  qed
qed

lemma toFixed_grid: "\<bar>x\<bar> < 10 ^ 21 \<Longrightarrow> \<exists>n::int. toFixed d x = of_int n / 10 ^ d"
  by (auto simp: toFixed_def intro: exI [of _ "- \<lfloor>(- x) * 10 ^ d + 1 / 2\<rfloor>"])

lemma toFixed_idem: "toFixed d (toFixed d x) = toFixed d x"
proof (cases "\<bar>x\<bar> < 10 ^ 21")
  case True
  then obtain n :: int where "toFixed d x = of_int n / 10 ^ d"
    using toFixed_grid by blast
  then have "toFixed d x * 10 ^ d = of_int n" by simp
  then show ?thesis by (rule toFixed_whole)
next
  case False
  then show ?thesis by (simp add: toFixed_def)
qed

section \<open>Properties of the ledger\<close>

lemma updateTokenBalance_nonneg:
  "balances_nonneg st \<Longrightarrow> balances_nonneg (snd (updateTokenBalance f u x st))"
  by (auto simp: balances_nonneg_def updateTokenBalance_def Let_def toFixed_nonneg)

lemma recordGameTransaction_nonneg:
  "balances_nonneg st \<Longrightarrow> balances_nonneg (snd (recordGameTransaction f u g a w st))"
  by (auto simp: balances_nonneg_def recordGameTransaction_def updateTokenBalance_def
      Let_def toFixed_nonneg split: option.splits)

lemma run_ops_nonneg: "balances_nonneg st \<Longrightarrow> balances_nonneg (run_ops ops st)"
proof (induction ops arbitrary: st)
  case Nil
  then show ?case by simp
next
  case (Cons x xs)
  obtain f op where x: "x = (f, op)" by (cases x)
  have "balances_nonneg (ledger_step x st)"
    using Cons.prems unfolding x by (cases op) (simp_all add: recordGameTransaction_nonneg)
  then show ?case using Cons.IH by simp
qed

lemma spend_above_balance:
  "\<not> select_fails f \<Longrightarrow> profiles st u = Some b \<Longrightarrow> b < a \<Longrightarrow>
   recordGameTransaction f u g a False st = (Inl Insufficient_token_balance, st)"
  by (simp add: recordGameTransaction_def)

text \<open>
  C1. Whatever spends and credits are run, on whatever accounts and with whatever store
  failures, no persisted balance becomes negative; and a spend above the balance read
  from the store (whatever the cache holds) throws \<open>Insufficient token balance\<close> and
  leaves the whole store, balance and transaction log, as it was.
\<close>

theorem C1_balance_never_negative:
  "(balances_nonneg st \<longrightarrow> balances_nonneg (run_ops ops st)) \<and>
   (\<not> select_fails f \<and> profiles st u = Some b \<and> b < a \<longrightarrow>
      recordGameTransaction f u g a False st = (Inl Insufficient_token_balance, st))"
  by (simp add: run_ops_nonneg spend_above_balance)

lemma ledger0_nonneg: "balances_nonneg ledger0"
  by (simp add: balances_nonneg_def ledger0_def)

theorem C1_balance_never_negative_witness:
  "balances_nonneg ledger0 \<and>
   balances_nonneg (run_ops [(no_faults, Spend ''alice'' dice 20),
                             (no_faults, Credit ''alice'' dice (-300)),
                             (no_faults, Spend ''alice'' dice 1)] ledger0) \<and>
   \<not> select_fails no_faults \<and> profiles ledger0 ''alice'' = Some 100 \<and> (100::real) < 150 \<and>
   recordGameTransaction no_faults ''alice'' dice 150 False ledger0
     = (Inl Insufficient_token_balance, ledger0)"
  using C1_balance_never_negative [of ledger0
      "[(no_faults, Spend ''alice'' dice 20), (no_faults, Credit ''alice'' dice (-300)),
        (no_faults, Spend ''alice'' dice 1)]" no_faults "''alice''" 100 150 dice]
    ledger0_nonneg
  by (simp add: ledger0_def no_faults_def)

text \<open>
  C10. A call of \<open>updateTokenBalance\<close> that reaches the row writes, and returns,
  \<open>max(0, newBalance)\<close> rounded to two decimals; a negative \<open>newBalance\<close> is stored
  as \<open>0\<close> and no error is raised for it.
\<close>

theorem C10_updateTokenBalance_clamps:
  "\<not> update_fails f \<and> profiles st u \<noteq> None \<longrightarrow>
     fst (updateTokenBalance f u x st) = Inr (toFixed 2 (max 0 x)) \<and>
     profiles (snd (updateTokenBalance f u x st)) u = Some (toFixed 2 (max 0 x)) \<and>
     (x < 0 \<longrightarrow> fst (updateTokenBalance f u x st) = Inr 0 \<and>
        profiles (snd (updateTokenBalance f u x st)) u = Some 0)"
  by (auto simp: updateTokenBalance_def Let_def max_def toFixed_zero)

theorem C10_updateTokenBalance_clamps_witness:
  "\<not> update_fails no_faults \<and> profiles ledger0 ''alice'' \<noteq> None \<and> (-5 :: real) < 0 \<and>
   fst (updateTokenBalance no_faults ''alice'' (-5) ledger0) = Inr 0 \<and>
   profiles (snd (updateTokenBalance no_faults ''alice'' (-5) ledger0)) ''alice'' = Some 0"
  using C10_updateTokenBalance_clamps [of no_faults ledger0 "''alice''" "-5"]
  by (simp add: ledger0_def no_faults_def toFixed_zero)

section \<open>Properties of Dice\<close>

lemma setTarget_in_range:
  "1 \<le> t \<Longrightarrow> t \<le> 98 \<Longrightarrow> \<not> isRolling gs \<Longrightarrow>
   targetNumber (setTarget t gs) = t \<and> multiplier (setTarget t gs) = toFixed 4 (99 / t)"
  by (simp add: setTarget_def Let_def dice_calculateMultiplier_def min_def max_def)

lemma setTarget_keeps:
  "betAmount (setTarget t gs) = betAmount gs \<and> isRolling (setTarget t gs) = isRolling gs"
  by (simp add: setTarget_def Let_def)

lemma dice_quotient_small:
  assumes "1 \<le> t"
  shows "\<bar>99 / t :: real\<bar> < 10 ^ 21"
proof -
  have "99 / t \<le> 99 / 1" using assms by (intro divide_left_mono) simp_all
  moreover have "0 \<le> 99 / t" using assms by simp
  ultimately show ?thesis by simp
qed

text \<open>
  A roll that passes the guards and meets no store failure ends with \<open>lastWin\<close> set
  exactly when the draw, times 100, is at most the target.
\<close>

lemma rollDice_lastWin:
  assumes "0 < betAmount gs" "betAmount gs \<le> tokenBalance w" "\<not> isRolling gs"
    and "profiles (store w) u = Some B" "betAmount gs \<le> B"
  shows "lastWin (fst (rollDice (Some u) no_faults no_faults no_faults r gs w)) \<noteq> None
           \<longleftrightarrow> r * 100 \<le> targetNumber gs"
  using assms
  by (simp add: rollDice_def dice_won_def no_faults_def recordGameTransaction_def
      updateTokenBalance_def Let_def)

lemma dice_multiplier_50: "dice_calculateMultiplier 50 = 198 / 100"
  by (simp add: dice_calculateMultiplier_def toFixed_def)



text \<open>
  C3. The scenario run on the code: balance 100 in the store and in the shell, the
  slider put on 50 (multiplier 1.98), bet 20, draw 0.30. The roll is won and two
  records are written, a \<open>game_spend\<close> of 20 and a \<open>game_win\<close> of 19.6; the balance that
  stays in the store is the one of the last write, \<open>tokenBalance + winnings\<close> with the
  \<open>tokenBalance\<close> of before the bet: 139.6, not 119.6.
\<close>

theorem C3_dice_scenario:
  "profiles (store (snd (rollDice (Some ''alice'') no_faults no_faults no_faults (3 / 10)
       (setTarget 50 dice_initial) world0))) ''alice'' = Some (1396 / 10) \<and>
   map transaction_type (token_transactions (store (snd (rollDice (Some ''alice'')
       no_faults no_faults no_faults (3 / 10) (setTarget 50 dice_initial) world0))))
     = [game_spend, game_win] \<and>
   map token_amount (token_transactions (store (snd (rollDice (Some ''alice'')
       no_faults no_faults no_faults (3 / 10) (setTarget 50 dice_initial) world0))))
     = [20, 196 / 10]"
  by (simp add: rollDice_def setTarget_def dice_initial_def world0_def ledger0_def
      no_faults_def recordGameTransaction_def updateTokenBalance_def dice_won_def
      dice_calculateMultiplier_def toFixed_def transaction_row_def Let_def)

section \<open>Properties of Crash\<close>

lemma crash_h_range:
  assumes "0 \<le> random" "random < 1"
  shows "0 \<le> \<lfloor>random * 2 ^ 32\<rfloor> \<and> \<lfloor>random * 2 ^ 32\<rfloor> < 2 ^ 32"
proof -
  have "0 \<le> random * 2 ^ 32" using assms by simp
  then have a: "0 \<le> \<lfloor>random * 2 ^ 32\<rfloor>" by simp
  have "random * 2 ^ 32 < 1 * 2 ^ 32" using assms by (intro mult_strict_right_mono) simp_all
  then have "random * 2 ^ 32 < of_int (2 ^ 32)" by simp
  then have b: "\<lfloor>random * 2 ^ 32\<rfloor> < 2 ^ 32" by (simp only: floor_less_iff)
  show ?thesis using a b by simp
qed

lemma crash_quotient_ge_100:
  fixes h :: real
  assumes "0 \<le> h" "h < 2 ^ 32"
  shows "100 \<le> (100 * 2 ^ 32 - h) / (2 ^ 32 - h)"
proof -
  have pos: "0 < 2 ^ 32 - h" using assms by simp
  have "100 * (2 ^ 32 - h) \<le> 100 * 2 ^ 32 - h" using assms by simp
  then show ?thesis using pos by (simp add: pos_le_divide_eq)
qed

lemma calculateCrashPoint_cases:
  "calculateCrashPoint random =
     (if \<lfloor>random * 2 ^ 32\<rfloor> = 0 then 1
      else max 1 ((100 * 2 ^ 32 - of_int \<lfloor>random * 2 ^ 32\<rfloor>) / (2 ^ 32 - of_int \<lfloor>random * 2 ^ 32\<rfloor>)) * (99 / 100))"
  by (simp add: calculateCrashPoint_def Let_def HOUSE_EDGE_def)

lemma crash_ge_99:
  assumes "0 \<le> random" "random < 1" "\<lfloor>random * 2 ^ 32\<rfloor> \<noteq> 0"
  shows "99 \<le> calculateCrashPoint random"
proof -
  define h :: real where "h = of_int \<lfloor>random * 2 ^ 32\<rfloor>"
  define q where "q = max 1 ((100 * 2 ^ 32 - h) / (2 ^ 32 - h))"
  have "\<lfloor>random * 2 ^ 32\<rfloor> < 2 ^ 32" "0 \<le> \<lfloor>random * 2 ^ 32\<rfloor>"
    using crash_h_range [OF assms(1,2)] by simp_all
  then have r: "0 \<le> h" "h < 2 ^ 32"
    unfolding h_def by (simp, metis of_int_less_iff of_int_numeral of_int_power)
  have "100 \<le> (100 * 2 ^ 32 - h) / (2 ^ 32 - h)" by (rule crash_quotient_ge_100 [OF r])
  then have "100 \<le> q" unfolding q_def by (rule max.coboundedI2)
  then have "99 \<le> q * (99 / 100)" by simp
  moreover have "calculateCrashPoint random = q * (99 / 100)"
    unfolding q_def h_def using assms(3) by (simp only: calculateCrashPoint_cases if_False)
  ultimately show ?thesis by simp
qed

text \<open>
  C7. With \<open>E = 2^32\<close> and \<open>H = floor(draw * E)\<close> for a draw in \<open>[0, 1)\<close>: when
  \<open>H\<close> is not zero the crash point is \<open>max(1.00, (100 E - H) / (E - H)) * 0.99\<close>, the
  divisor being positive; when \<open>H = 0\<close> it is exactly \<open>1\<close>.
\<close>

theorem C7_crash_point:
  assumes "0 \<le> random" "random < 1"
  shows "(\<lfloor>random * 2 ^ 32\<rfloor> \<noteq> 0 \<longrightarrow>
            calculateCrashPoint random =
              max 1 ((100 * 2 ^ 32 - of_int \<lfloor>random * 2 ^ 32\<rfloor>) /
                     (2 ^ 32 - of_int \<lfloor>random * 2 ^ 32\<rfloor>)) * (99 / 100) \<and>
            (0::real) < 2 ^ 32 - of_int \<lfloor>random * 2 ^ 32\<rfloor>) \<and>
         (\<lfloor>random * 2 ^ 32\<rfloor> = 0 \<longrightarrow> calculateCrashPoint random = 1)"
proof -
  have "\<lfloor>random * 2 ^ 32\<rfloor> < 2 ^ 32"
    using crash_h_range [OF assms] by simp
  then have "(of_int \<lfloor>random * 2 ^ 32\<rfloor> :: real) < 2 ^ 32"
    by (metis of_int_less_iff of_int_numeral of_int_power)
  then show ?thesis
    by (simp only: calculateCrashPoint_cases) simp
qed

theorem C7_crash_point_witness:
  "(0::real) \<le> 1 / 2 \<and> (1 / 2 :: real) < 1 \<and> \<lfloor>(1 / 2 :: real) * 2 ^ 32\<rfloor> \<noteq> 0 \<and>
   calculateCrashPoint (1 / 2) = 19701 / 100 \<and>
   (0::real) \<le> 1 / 2 ^ 33 \<and> (1 / 2 ^ 33 :: real) < 1 \<and> \<lfloor>(1 / 2 ^ 33 :: real) * 2 ^ 32\<rfloor> = 0 \<and>
   calculateCrashPoint (1 / 2 ^ 33) = 1"
proof -
  have a: "\<lfloor>(1 / 2 :: real) * 2 ^ 32\<rfloor> = 2147483648" by simp
  have b: "\<lfloor>(1 / 2 ^ 33 :: real) * 2 ^ 32\<rfloor> = 0" by (simp add: floor_half)
  show ?thesis
    using C7_crash_point [of "1 / 2"] C7_crash_point [of "1 / 2 ^ 33"]
    unfolding a b by simp
qed

section \<open>Properties of Mines\<close>

lemma place_distinct:
  "place ds n taken acc = Some (ps, rest) \<Longrightarrow> distinct acc \<Longrightarrow> distinct ps"
  by (induction ds n taken acc rule: place.induct) (auto split: if_splits)

lemma place_distinct_fresh: "place ds n taken [] = Some (ps, rest) \<Longrightarrow> distinct ps"
  using place_distinct [of ds n taken "[]" ps rest] by simp

lemma initializeGame_distinct:
  "initializeGame draws gs = Some (g, ms, gems) \<Longrightarrow> distinct gems"
  by (auto simp: initializeGame_def split: option.splits dest: place_distinct_fresh)

lemma initializeGame_grid:
  "initializeGame draws gs = Some (g, ms, gems) \<Longrightarrow> g = replicate 5 (replicate 5 hidden)"
  by (auto simp: initializeGame_def split: option.splits)

lemma fresh_grid_at: "grid_at (replicate 5 (replicate 5 hidden)) r c \<noteq> Some revealed"
  by (auto simp: grid_at_def)

lemma grid_at_reveal:
  "grid_at (reveal (r, c) g) r' c' =
     (if r' = r \<and> c' = c \<and> grid_at g r c \<noteq> None then Some revealed else grid_at g r' c')"
  by (auto simp: grid_at_def reveal_def nth_list_update)

lemma count_after_reveal:
  assumes "distinct ps" "(r, c) \<in> set ps" "grid_at g r c = Some hidden"
  shows "length (filter (\<lambda>p. grid_at (reveal (r, c) g) (fst p) (snd p) = Some revealed) ps)
       = Suc (length (filter (\<lambda>p. grid_at g (fst p) (snd p) = Some revealed) ps))"
  using assms
proof (induction ps)
  case Nil then show ?case by simp
next
  case (Cons p ps)
  show ?case
  proof (cases "p = (r, c)")
    case True
    then have notin: "(r, c) \<notin> set ps" using Cons.prems by simp
    have same: "filter (\<lambda>p. grid_at (reveal (r, c) g) (fst p) (snd p) = Some revealed) ps
              = filter (\<lambda>p. grid_at g (fst p) (snd p) = Some revealed) ps"
      using notin by (intro filter_cong) (auto simp: grid_at_reveal)
    show ?thesis using True Cons.prems(3) same by (simp add: grid_at_reveal)
  next
    case False
    then have "(r, c) \<in> set ps" "distinct ps" using Cons.prems by auto
    from Cons.IH [OF this(2) this(1) Cons.prems(3)] False
    show ?thesis by (cases p) (auto simp: grid_at_reveal)
  qed
qed

lemma count_other_reveal:
  assumes "(r, c) \<notin> set ps"
  shows "length (filter (\<lambda>p. grid_at (reveal (r, c) g) (fst p) (snd p) = Some revealed) ps)
       = length (filter (\<lambda>p. grid_at g (fst p) (snd p) = Some revealed) ps)"
proof -
  have "filter (\<lambda>p. grid_at (reveal (r, c) g) (fst p) (snd p) = Some revealed) ps
      = filter (\<lambda>p. grid_at g (fst p) (snd p) = Some revealed) ps"
    using assms by (intro filter_cong) (auto simp: grid_at_reveal)
  then show ?thesis by simp
qed

lemma revealTile_fields:
  "mineCount (fst (revealTile user f1 f2 row col gs w)) = mineCount gs \<and>
   gemCount (fst (revealTile user f1 f2 row col gs w)) = gemCount gs \<and>
   gemPositions (fst (revealTile user f1 f2 row col gs w)) = gemPositions gs"
  by (auto simp: revealTile_def Let_def split: option.splits prod.splits sum.splits)

lemma revealTile_inv:
  assumes "mines_inv gs"
  shows "mines_inv (fst (revealTile user f1 f2 row col gs w))"
proof (cases "\<not> isPlaying gs \<or> grid_at (grid gs) row col \<noteq> Some hidden")
  case True
  then show ?thesis using assms by (simp add: revealTile_def)
next
  case False
  then have pl: "isPlaying gs" and hid: "grid_at (grid gs) row col = Some hidden" by auto
  have d: "distinct (gemPositions gs)" and cnt: "revealedCount gs = int (revealed_gems gs)"
    and nn: "0 \<le> revealedCount gs"
    and mult: "0 < revealedCount gs \<longrightarrow> currentMultiplier gs =
        mines_calculateMultiplier (revealedCount gs) (mineCount gs) (gemCount gs)"
    using assms pl by (auto simp: mines_inv_def split: if_splits)
  show ?thesis
  proof (cases "(row, col) \<in> set (minePositions gs)")
    case True
    then show ?thesis using pl hid d nn mult
      by (simp add: revealTile_def Let_def mines_inv_def)
  next
    case nomine: False
    show ?thesis
    proof (cases "(row, col) \<in> set (gemPositions gs)")
      case False
      have "revealed_gems (gs\<lparr>grid := reveal (row, col) (grid gs)\<rparr>) = revealed_gems gs"
        using count_other_reveal [OF False] by (simp add: revealed_gems_def)
      then show ?thesis using pl hid d nn mult cnt nomine False
        by (simp add: revealTile_def Let_def mines_inv_def revealed_gems_def)
    next
      case True
      have c1: "length (filter (\<lambda>p. grid_at (reveal (row, col) (grid gs)) (fst p) (snd p) = Some revealed) (gemPositions gs))
         = Suc (revealed_gems gs)"
        using count_after_reveal [OF d True hid] by (simp add: revealed_gems_def)
      show ?thesis using pl hid d nn mult cnt nomine True c1
        by (auto simp: revealTile_def Let_def mines_inv_def revealed_gems_def
            split: option.splits prod.splits sum.splits)
    qed
  qed
qed

lemma reveal_tiles_inv:
  "mines_inv gs \<Longrightarrow> mines_inv (fst (reveal_tiles user evs gs w))"
proof (induction evs arbitrary: gs w)
  case Nil then show ?case by simp
next
  case (Cons ev evs)
  obtain f1 f2 row col where ev: "ev = (f1, f2, row, col)" by (cases ev)
  obtain gs' w' where r: "revealTile user f1 f2 row col gs w = (gs', w')" by fastforce
  have "mines_inv gs'" using revealTile_inv [OF Cons.prems, of user f1 f2 row col w] r by simp
  then show ?case using Cons.IH [of gs' w'] by (simp add: ev r)
qed

lemma reveal_tiles_fields:
  "mineCount (fst (reveal_tiles user evs gs w)) = mineCount gs \<and>
   gemCount (fst (reveal_tiles user evs gs w)) = gemCount gs"
proof (induction evs arbitrary: gs w)
  case Nil then show ?case by simp
next
  case (Cons ev evs)
  obtain f1 f2 row col where ev: "ev = (f1, f2, row, col)" by (cases ev)
  obtain gs' w' where r: "revealTile user f1 f2 row col gs w = (gs', w')" by fastforce
  show ?case using Cons.IH [of gs' w'] revealTile_fields [of user f1 f2 row col gs w]
    by (simp add: ev r)
qed

lemma started_inv:
  assumes "mines_startGame user f draws gs w = Some (gs1, w1)" "isPlaying gs1" "\<not> isPlaying gs"
  shows "mines_inv gs1 \<and> mineCount gs1 = mineCount gs \<and> gemCount gs1 = gemCount gs \<and> revealedCount gs1 = 0"
proof -
  obtain g ms gems where init: "initializeGame draws gs = Some (g, ms, gems)"
    and gs1: "gs1 = gs\<lparr>grid := g, minePositions := ms, gemPositions := gems, isPlaying := True,
               revealedCount := 0, currentMultiplier := 1, lastWin := None\<rparr>"
  proof (cases "initializeGame draws gs")
    case None
    then show ?thesis using assms
      by (simp add: mines_startGame_def split: if_split_asm option.split_asm prod.split_asm sum.split_asm)
  next
    case (Some t)
    obtain g ms gems where t: "t = (g, ms, gems)" by (cases t)
    have "gs1 = gs \<or> gs1 = gs\<lparr>grid := g, minePositions := ms, gemPositions := gems, isPlaying := True,
               revealedCount := 0, currentMultiplier := 1, lastWin := None\<rparr>"
      using assms(1) Some t
      by (simp add: mines_startGame_def split: if_split_asm option.split_asm prod.split_asm sum.split_asm)
    then show ?thesis using that [of g ms gems] Some t assms(2,3) by blast
  qed
  have g: "g = replicate 5 (replicate 5 hidden)" by (rule initializeGame_grid [OF init])
  have d: "distinct gems" by (rule initializeGame_distinct [OF init])
  have "revealed_gems gs1 = 0"
    by (simp add: revealed_gems_def gs1 g fresh_grid_at)
  then show ?thesis using d by (simp add: mines_inv_def gs1)
qed

lemma reveal_hidden_nonneg_aux:
  "0 \<le> n \<Longrightarrow> 0 \<le> snd (fold (\<lambda>p (newGrid, revealedGems).
             if grid_at newGrid (fst p) (snd p) = Some hidden
             then (reveal p newGrid, revealedGems + 1)
             else (newGrid, revealedGems)) ps (g, n :: int))"
  by (induction ps arbitrary: g n) auto

lemma reveal_hidden_nonneg: "reveal_hidden ps g = (g', n) \<Longrightarrow> 0 \<le> n"
  using reveal_hidden_nonneg_aux [of 0 ps g] by (simp add: reveal_hidden_def)

lemma revealAllGems_inv:
  assumes "mines_inv gs"
  shows "mines_inv (fst (revealAllGems user f1 f2 gs w))"
proof -
  obtain g' n where rh: "reveal_hidden (gemPositions gs) (grid gs) = (g', n)" by fastforce
  have n: "0 \<le> n" by (rule reveal_hidden_nonneg [OF rh])
  show ?thesis using assms n
    by (auto simp: revealAllGems_def rh Let_def mines_inv_def
        split: option.splits prod.splits sum.splits)
qed

lemma revealAllGems_fields:
  "mineCount (fst (revealAllGems user f1 f2 gs w)) = mineCount gs \<and>
   gemCount (fst (revealAllGems user f1 f2 gs w)) = gemCount gs"
  by (auto simp: revealAllGems_def Let_def split: option.splits prod.splits sum.splits)

lemma autoReveal_inv: "mines_inv gs \<Longrightarrow> mines_inv (fst (autoReveal user f1 f2 gs w))"
  by (simp add: autoReveal_def revealAllGems_inv)

lemma autoReveal_fields:
  "mineCount (fst (autoReveal user f1 f2 gs w)) = mineCount gs \<and>
   gemCount (fst (autoReveal user f1 f2 gs w)) = gemCount gs"
  by (simp add: autoReveal_def revealAllGems_fields)

lemma mines_example_multiplier: "mines_calculateMultiplier 1 10 15 = 158 / 100"
  by (simp add: mines_calculateMultiplier_def GRID_SIZE_def toFixed_def
      Let_def)


lemma mines_example_start: "mines_startGame (Some ''alice'') no_faults draws25 mines_practice world0 = Some (mines_started, world0)"
  by (simp add: mines_startGame_def mines_practice_def mines_initial_def world0_def GRID_SIZE_def
      initializeGame_def draws25_def drawn_cell_def floor_half mines_started_def)

lemma mines_example_auto: "autoReveal (Some ''alice'') no_faults no_faults mines_started world0 = (mines_started, world0)"
  by (simp add: autoReveal_def mines_started_def mines_practice_def mines_initial_def AUTO_REVEAL_THRESHOLD_def)

lemma mines_example_reveal: "reveal_tiles (Some ''alice'') [(no_faults, no_faults, 2, 0)] mines_started world0 = (mines_one_gem, world0)"
  by (simp add: revealTile_def mines_started_def mines_practice_def mines_initial_def mines_one_gem_def
      grid_at_def reveal_def mines_calculateMultiplier_def GRID_SIZE_def toFixed_def Let_def
      eval_nat_numeral)


section \<open>Settlement happens once\<close>

lemma crash_cashout_settled:
  "crash_settled gs \<Longrightarrow> crash_cashout user f1 f2 gs w = (gs, w)"
  by (auto simp: crash_settled_def crash_cashout_def)

lemma mines_cashout_settled:
  "mines_settled gs \<Longrightarrow> mines_cashout user f1 f2 gs w = (gs, w)"
  by (auto simp: mines_settled_def mines_cashout_def)


lemma crash_example_cashout:
  "crash_cashout (Some ''alice'') no_faults no_faults crash_flying world_after_bet =
     (crash_flying\<lparr>hasBet := False, lastWin := Some 10, cashedOut := True, winsInSession := 1\<rparr>,
      \<lparr>tokenBalance = 110,
       store = \<lparr>profiles = [''alice'' \<mapsto> 110],
                token_transactions =
                  [\<lparr>user_id = ''alice'', transaction_type = game_spend,
                     token_amount = 20, game_type = crash\<rparr>,
                   \<lparr>user_id = ''alice'', transaction_type = game_win,
                     token_amount = 10, game_type = crash\<rparr>],
                cachedBalance = Some 110\<rparr>\<rparr>)"
  by (simp add: crash_cashout_def crash_flying_def crash_initial_def world_after_bet_def
      no_faults_def recordGameTransaction_def updateTokenBalance_def toFixed_def Let_def
      transaction_row_def)

lemma mines_example_cashout:
  "mines_settled (fst (mines_cashout (Some ''alice'') no_faults no_faults mines_paid_round
      world_after_bet)) \<and>
   tokenBalance (snd (mines_cashout (Some ''alice'') no_faults no_faults mines_paid_round
      world_after_bet)) = 1116 / 10"
  by (simp add: mines_cashout_def mines_paid_round_def mines_one_gem_def mines_started_def
      mines_practice_def mines_initial_def world_after_bet_def mines_settled_def
      no_faults_def recordGameTransaction_def updateTokenBalance_def toFixed_def Let_def
      transaction_row_def)


section \<open>Properties of Blackjack\<close>

lemma score_ace_king: "calculateScore ace_king = 21 \<and> playerBlackjack ace_king"
  by (simp add: ace_king_def playerBlackjack_def calculateScore_def new_card_def)

lemma playerWins_busted: "calculateScore p > 21 \<Longrightarrow> \<not> playerWins p d"
  by (simp add: playerWins_def Let_def)

lemma playerWins_dealer_busted: "calculateScore p \<le> 21 \<Longrightarrow> calculateScore d > 21 \<Longrightarrow> playerWins p d"
  by (simp add: playerWins_def Let_def)

lemma playerWins_tie:
  "calculateScore p = calculateScore d \<Longrightarrow> calculateScore p \<le> 21 \<Longrightarrow>
   (playerBlackjack p \<longleftrightarrow> (calculateScore d = 21 \<and> length d = 2)) \<Longrightarrow> \<not> playerWins p d"
  by (auto simp: playerWins_def playerBlackjack_def Let_def)

lemma handleGameEnd_loss:
  "handleGameEnd (Some u) f1 f2 False b gs w = (gs\<lparr>lastWin := None\<rparr>, w)"
  by (simp add: handleGameEnd_def)

lemma handleGameEnd_win:
  assumes "profiles (store w) u = Some B" "0 \<le> betAmount gs" "0 \<le> tokenBalance w"
  shows "tokenBalance (snd (handleGameEnd (Some u) no_faults no_faults True b gs w))
           = toFixed 2 (tokenBalance w + toFixed 2 (betAmount gs * (if b then 5 / 2 else 2))) \<and>
         profiles (store (snd (handleGameEnd (Some u) no_faults no_faults True b gs w))) u
           = Some (toFixed 2 (tokenBalance w + toFixed 2 (betAmount gs * (if b then 5 / 2 else 2)))) \<and>
         lastWin (fst (handleGameEnd (Some u) no_faults no_faults True b gs w))
           = Some (toFixed 2 (betAmount gs * (if b then 5 / 2 else 2)) - betAmount gs)"
proof -
  have pay: "0 \<le> toFixed 2 (tokenBalance w + toFixed 2 (betAmount gs * k))" if "0 \<le> k" for k
  proof -
    have "0 \<le> toFixed 2 (betAmount gs * k)" using assms(2) that by (intro toFixed_nonneg) simp
    then show ?thesis using assms(3) by (intro toFixed_nonneg) simp
  qed
  show ?thesis
  proof (cases b)
    case True
    then show ?thesis using assms(1) pay [of "5 / 2"]
      by (simp add: handleGameEnd_def no_faults_def recordGameTransaction_def
          updateTokenBalance_def Let_def max_def toFixed_idem)
  next
    case False
    then show ?thesis using assms(1) pay [of 2]
      by (simp add: handleGameEnd_def no_faults_def recordGameTransaction_def
          updateTokenBalance_def Let_def max_def toFixed_idem)
  qed
qed

lemma playerWins_natural:
  "calculateScore p \<le> 21 \<Longrightarrow> calculateScore d \<le> 21 \<Longrightarrow> playerBlackjack p \<Longrightarrow>
   \<not> (calculateScore d = 21 \<and> length d = 2) \<Longrightarrow> playerWins p d"
  by (auto simp: playerWins_def playerBlackjack_def Let_def)

lemma playerWins_compare:
  "calculateScore p \<le> 21 \<Longrightarrow> calculateScore d \<le> 21 \<Longrightarrow>
   (playerBlackjack p \<longleftrightarrow> (calculateScore d = 21 \<and> length d = 2)) \<Longrightarrow>
   playerWins p d \<longleftrightarrow> calculateScore p > calculateScore d"
  by (auto simp: playerWins_def playerBlackjack_def Let_def)

lemma blackjack_tie_stand:
  "stand (Some ''alice'') no_faults no_faults blackjack_tie world_after_bet
     = (blackjack_tie\<lparr>gamePhase := complete\<rparr>, world_after_bet)"
  by (simp add: stand_def handleDealerTurn_def blackjack_tie_def new_card_def parseInt_def
      calculateScore_def handleGameEnd_def playerWins_def playerBlackjack_def Let_def
      dealCard_def)



lemma blackjack_example_scores:
  "calculateScore [new_card Spades ''10'', new_card Diamonds ''8'', new_card Hearts ''K''] = 28"
  "calculateScore [new_card Hearts ''10'', new_card Clubs ''8''] = 18"
  "calculateScore [new_card Spades ''10'', new_card Diamonds ''8''] = 18"
  "\<not> playerBlackjack [new_card Spades ''10'', new_card Diamonds ''8'']"
  by (simp_all add: new_card_def parseInt_def calculateScore_def playerBlackjack_def)


section \<open>Properties of Plinko\<close>

lemma determineFinalBucket_first_interval:
  assumes "0 \<le> random" "random < 1"
  shows "case first_interval r random of
           None \<Rightarrow> False
         | Some e \<Rightarrow> fst (fst e) \<le> random \<and> random < snd (fst e) \<and>
             0 \<le> determineFinalBucket r random \<and> determineFinalBucket r random \<le> 7 \<and>
             MULTIPLIERS r ! nat (determineFinalBucket r random) = snd e"
  using assms
  by (cases r) (simp_all add: determineFinalBucket_def first_interval_def indexOf_def)

lemma far_no_bounce:
  assumes "8 \<le> \<bar>pos_x b - px\<bar> \<or> 8 \<le> \<bar>pos_y b - py\<bar>" "radius b = 5"
  shows "bounce draws (px, py) (b, k) = (b, k)"
proof -
  let ?dx = "pos_x b - px" and ?dy = "pos_y b - py"
  have "64 \<le> ?dx * ?dx + ?dy * ?dy"
  proof -
    have sq: "64 \<le> d * d" if "8 \<le> \<bar>d\<bar>" for d :: real
    proof -
      have "8 * 8 \<le> \<bar>d\<bar> * \<bar>d\<bar>" using that by (intro mult_mono) simp_all
      then show ?thesis by simp
    qed
    have nn: "0 \<le> d * d" for d :: real by simp
    from assms(1) show ?thesis
    proof
      assume "8 \<le> \<bar>?dx\<bar>"
      then show ?thesis using sq [of ?dx] nn [of ?dy] by linarith
    next
      assume "8 \<le> \<bar>?dy\<bar>"
      then show ?thesis using sq [of ?dy] nn [of ?dx] by linarith
    qed
  qed
  then have "sqrt 64 \<le> sqrt (?dx * ?dx + ?dy * ?dy)" by (rule real_sqrt_le_mono)
  moreover have "sqrt 64 = 8" using real_sqrt_abs [of 8] by simp
  ultimately have "\<not> sqrt (?dx * ?dx + ?dy * ?dy) < 8" by simp
  then show ?thesis using assms(2) by (simp add: bounce_def Let_def PIN_RADIUS_def)
qed

lemma fold_far:
  "list_all (far b) ps \<Longrightarrow> radius b = 5 \<Longrightarrow> fold (bounce draws) ps (b, k) = (b, k)"
proof (induction ps)
  case Nil then show ?case by simp
next
  case (Cons p ps)
  obtain px py where p: "p = (px, py)" by (cases p)
  have "bounce draws (px, py) (b, k) = (b, k)"
    using Cons.prems by (intro far_no_bounce) (simp_all add: far_def p)
  then show ?case using Cons by (simp add: p)
qed

lemma bounce_on_top:
  assumes "pos_x b = px" "py - 8 < pos_y b" "pos_y b < py" "vel_x b = 0" "0 \<le> vel_y b"
    "radius b = 5" "draws k = 1 / 2"
  shows "bounce draws (px, py) (b, k)
       = (b\<lparr>vel_x := 0, vel_y := vel_y b * (6 / 10), pos_x := px, pos_y := py - 9\<rparr>, k + 1)"
proof -
  let ?dy = "pos_y b - py"
  have dy: "?dy < 0" "- 8 < ?dy" using assms by simp_all
  have dist: "sqrt (?dy * ?dy) = - ?dy" using dy real_sqrt_abs2 [of ?dy] by simp
  have sp: "sqrt (vel_y b * vel_y b) = vel_y b" using assms(5) real_sqrt_abs2 [of "vel_y b"] by simp
  have ang: "atan2 ?dy 0 = - (pi / 2)" using dy by (simp add: atan2_def)
  have c: "cos (- (pi / 2)) = 0" "sin (- (pi / 2)) = - 1" by simp_all
  have ba: "atan2 ?dy 0 + ((1 / 2) * (2 / 10) - 1 / 10) = - (pi / 2)" using ang by simp
  have "bounce draws (px, py) (b, k) =
          (b\<lparr>vel_x := cos (- (pi / 2)) * vel_y b * BOUNCE_DAMPING,
              vel_y := \<bar>sin (- (pi / 2)) * vel_y b * BOUNCE_DAMPING\<bar>,
              pos_x := px + (radius b + PIN_RADIUS + 1) * cos (- (pi / 2)),
              pos_y := py + (radius b + PIN_RADIUS + 1) * sin (- (pi / 2))\<rparr>, k + 1)"
    using dy assms(6)
    by (simp only: bounce_def Let_def fst_conv snd_conv assms(1,4,7) diff_self mult_zero_left
        add_0 dist sp ba ang) (simp add: PIN_RADIUS_def)
  then show ?thesis using assms(5,6) unfolding c
    by (simp add: PIN_RADIUS_def BOUNCE_DAMPING_def)
qed

lemma pins_first_row:
  assumes "0 < n"
  shows "pins n = (365, 100) # (400, 100) # (435, 100) # later_pins n"
proof -
  have u: "[0..<n] = 0 # [1..<n]" using assms by (simp add: upt_conv_Cons)
  have t: "[0..<3] = [0, 1, 2]" by (simp add: upt_rec)
  show ?thesis
    unfolding pins_def later_pins_def u by (simp add: t CANVAS_WIDTH_def PIN_SPACING_def)
qed

lemma later_rows_far:
  assumes "pos_y b \<le> 100"
  shows "list_all (far b) (later_pins n)"
proof -
  have "far b (px, 100 + real row * PIN_SPACING)" if "1 \<le> row" for row px
  proof -
    have "1 \<le> real row" using that by simp
    then have "35 \<le> real row * 35" by simp
    then show ?thesis using assms by (simp add: far_def PIN_SPACING_def)
  qed
  then show ?thesis by (auto simp: list_all_iff later_pins_def)
qed

lemma energy_bound:
  fixes v :: real
  assumes "0 \<le> v" "2 * (v * v) \<le> 42"
  shows "v \<le> 5"
proof (rule ccontr)
  assume "\<not> v \<le> 5"
  then have "5 < v" by simp
  then have "5 * 5 < v * v" by (intro mult_strict_mono) simp_all
  then show False using assms(2) by simp
qed

lemma move_perched:
  assumes "perched b" "0 < n"
  shows "perched (fst (move half_draws n (b, k)))"
proof -
  have f: "active b" "radius b = 5" "pos_x b = 400" "vel_x b = 0" "pathIndex b = 0"
    "0 \<le> vel_y b" "50 + 2 * (vel_y b * vel_y b) \<le> pos_y b" "pos_y b \<le> 92"
    using assms(1) by (simp_all add: perched_def)
  have v5: "vel_y b \<le> 5" using f(6,7,8) by (intro energy_bound) simp_all
  define bm where "bm = b\<lparr>vel_y := vel_y b + 1 / 4, vel_x := 0, pos_x := 400,
                          pos_y := pos_y b + (vel_y b + 1 / 4)\<rparr>"
  have st: "steer (b\<lparr>vel_y := vel_y b + GRAVITY\<rparr>) = b\<lparr>vel_y := vel_y b + GRAVITY\<rparr>"
    using f(5,8) by (simp add: steer_def Let_def)
  have mv: "move half_draws n (b, k) = fold (bounce half_draws) (pins n) (bm, k + 1)"
    unfolding move_def Let_def fst_conv snd_conv st
    using f(2,3,4) by (simp add: walls_def half_draws_def GRAVITY_def CANVAS_WIDTH_def bm_def)
  have bmf: "active bm" "radius bm = 5" "pos_x bm = 400" "vel_x bm = 0" "pathIndex bm = 0"
    "vel_y bm = vel_y b + 1 / 4" "pos_y bm = pos_y b + (vel_y b + 1 / 4)"
    using f by (simp_all add: bm_def)
  have y100: "pos_y bm < 100" using bmf(7) f(8) v5 by simp
  have p1: "bounce half_draws (365, 100) (bm, k + 1) = (bm, k + 1)"
    using bmf by (intro far_no_bounce) simp_all
  show ?thesis
  proof (cases "92 < pos_y bm")
    case True
    define bc where "bc = bm\<lparr>vel_x := 0, vel_y := vel_y bm * (6 / 10), pos_x := 400, pos_y := 100 - 9\<rparr>"
    have p2: "bounce half_draws (400, 100) (bm, k + 1) = (bc, k + 1 + 1)"
      unfolding bc_def using bmf True y100 f(6)
      by (intro bounce_on_top) (simp_all add: half_draws_def)
    have bcf: "active bc" "radius bc = 5" "pos_x bc = 400" "vel_x bc = 0" "pathIndex bc = 0"
      "vel_y bc = (vel_y b + 1 / 4) * (6 / 10)" "pos_y bc = 91"
      using bmf by (simp_all add: bc_def)
    have p3: "bounce half_draws (435, 100) (bc, k + 1 + 1) = (bc, k + 1 + 1)"
      using bcf by (intro far_no_bounce) simp_all
    have rest: "fold (bounce half_draws) ps (bc, k + 1 + 1) = (bc, k + 1 + 1)"
      if "list_all (far bc) ps" for ps
      using that bcf(2) by (rule fold_far)
    have "fold (bounce half_draws) (pins n) (bm, k + 1)
        = fold (bounce half_draws) (later_pins n)
            (bounce half_draws (435, 100) (bounce half_draws (400, 100)
              (bounce half_draws (365, 100) (bm, k + 1))))"
      by (simp only: pins_first_row [OF assms(2)] fold_simps)
    also have "\<dots> = fold (bounce half_draws) (later_pins n) (bc, k + 1 + 1)"
      by (simp only: p1 p2 p3)
    also have "\<dots> = (bc, k + 1 + 1)"
      using bcf(7) by (intro rest later_rows_far) simp
    finally have "move half_draws n (b, k) = (bc, k + 1 + 1)" unfolding mv .
    moreover have "perched bc"
    proof -
      have a: "vel_y b * vel_y b \<le> 21" using f(7,8) by simp
      have e: "vel_y bc * vel_y bc
          = (36 / 100) * (vel_y b * vel_y b) + (18 / 100) * vel_y b + 9 / 400"
        unfolding bcf(6) by (simp add: algebra_simps)
      have en: "2 * (vel_y bc * vel_y bc) \<le> 41" unfolding e using a v5 by simp
      have nn: "0 \<le> vel_y bc" unfolding bcf(6) using f(6) by simp
      show ?thesis using bcf(1-5,7) en nn by (simp add: perched_def)
    qed
    ultimately show ?thesis by simp
  next
    case False
    have p2: "bounce half_draws (400, 100) (bm, k + 1) = (bm, k + 1)"
      using bmf False by (intro far_no_bounce) simp_all
    have p3: "bounce half_draws (435, 100) (bm, k + 1) = (bm, k + 1)"
      using bmf by (intro far_no_bounce) simp_all
    have rest: "fold (bounce half_draws) ps (bm, k + 1) = (bm, k + 1)"
      if "list_all (far bm) ps" for ps
      using that bmf(2) by (rule fold_far)
    have "fold (bounce half_draws) (pins n) (bm, k + 1)
        = fold (bounce half_draws) (later_pins n)
            (bounce half_draws (435, 100) (bounce half_draws (400, 100)
              (bounce half_draws (365, 100) (bm, k + 1))))"
      by (simp only: pins_first_row [OF assms(2)] fold_simps)
    also have "\<dots> = fold (bounce half_draws) (later_pins n) (bm, k + 1)"
      by (simp only: p1 p2 p3)
    also have "\<dots> = (bm, k + 1)"
      using y100 by (intro rest later_rows_far) simp
    finally have "move half_draws n (b, k) = (bm, k + 1)" unfolding mv .
    moreover have "perched bm"
    proof -
      have e: "vel_y bm * vel_y bm = vel_y b * vel_y b + (1 / 2) * vel_y b + 1 / 16"
        unfolding bmf(6) by (simp add: algebra_simps)
      have en: "50 + 2 * (vel_y bm * vel_y bm) \<le> pos_y bm"
        unfolding e bmf(7) using f(7) by simp
      have nn: "0 \<le> vel_y bm" unfolding bmf(6) using f(6) by simp
      show ?thesis using bmf(1-5) en nn False by (simp add: perched_def)
    qed
    ultimately show ?thesis by simp
  qed
qed

lemma updateBall_stuck:
  assumes "stuck gs"
  shows "stuck (fst (fst (updateBall user f1 f2 f3 half_draws ((gs, w), k)))) \<and>
         snd (fst (updateBall user f1 f2 f3 half_draws ((gs, w), k))) = w \<and>
         lastWin (fst (fst (updateBall user f1 f2 f3 half_draws ((gs, w), k)))) = lastWin gs"
proof -
  obtain b where b: "currentBall gs = Some b" "perched b" and r: "0 < rows gs" and d: "isDropping gs"
    using assms by (auto simp: stuck_def split: option.splits)
  have p: "perched (fst (move half_draws (rows gs) (b, k)))" by (rule move_perched [OF b(2) r])
  then have low: "pos_y (fst (move half_draws (rows gs) (b, k))) \<le> 92" by (simp add: perched_def)
  have "0 \<le> real (rows gs) * 35" by simp
  then have "\<not> 100 + real (rows gs) * PIN_SPACING \<le> pos_y (fst (move half_draws (rows gs) (b, k)))"
    using low by (simp add: PIN_SPACING_def)
  then have "updateBall user f1 f2 f3 half_draws ((gs, w), k)
      = ((gs\<lparr>currentBall := Some (fst (move half_draws (rows gs) (b, k)))\<rparr>, w),
         snd (move half_draws (rows gs) (b, k)))"
    using b(1,2) by (simp add: updateBall_def Let_def perched_def)
  then show ?thesis using p r d by (simp add: stuck_def)
qed

lemma frames_stuck:
  "stuck gs \<Longrightarrow>
     stuck (fst (fst (frames n user f1 f2 f3 half_draws ((gs, w), k)))) \<and>
     snd (fst (frames n user f1 f2 f3 half_draws ((gs, w), k))) = w \<and>
     lastWin (fst (fst (frames n user f1 f2 f3 half_draws ((gs, w), k)))) = lastWin gs"
proof (induction n arbitrary: gs k)
  case 0
  then show ?case by simp
next
  case (Suc n)
  obtain gs' w' k' where u: "updateBall user f1 f2 f3 half_draws ((gs, w), k) = ((gs', w'), k')"
    by (metis prod.collapse)
  have s: "stuck gs'" "w' = w" "lastWin gs' = lastWin gs"
    using updateBall_stuck [OF Suc.prems, of user f1 f2 f3 w k] by (simp_all add: u)
  show ?case using Suc.IH [OF s(1), of k'] s(2,3) by (simp add: u)
qed

lemma plinko_dropped_value:
  "plinko_dropped =
     (plinko_initial\<lparr>isDropping := True, lastWin := None,
        currentBall := Some \<lparr>pos_x = 400, pos_y = 50, vel_x = 0, vel_y = 0, radius = 5,
          active = True, path = calculatePathToTarget 0 16, pathIndex = 0\<rparr>\<rparr>,
      \<lparr>tokenBalance = 80,
       store = \<lparr>profiles = [''alice'' \<mapsto> 80],
                token_transactions = [\<lparr>user_id = ''alice'', transaction_type = game_spend,
                                        token_amount = 20, game_type = plinko\<rparr>],
                cachedBalance = Some 80\<rparr>\<rparr>)"
  by (simp add: plinko_dropped_def dropBall_def plinko_initial_def world0_def ledger0_def
      no_faults_def recordGameTransaction_def updateTokenBalance_def toFixed_def Let_def
      transaction_row_def determineFinalBucket_def first_interval_def indexOf_def CANVAS_WIDTH_def BALL_RADIUS_def)

lemma plinko_dropped_stuck: "stuck (fst plinko_dropped)"
  by (simp add: plinko_dropped_value stuck_def perched_def plinko_initial_def)

text \<open>
  What a landed ball is paid depends on where it lies, not on the bucket that was
  drawn: the round ends with \<open>lastWin\<close> set from the multiplier of the bucket under
  \<open>pos_x\<close>.
\<close>

lemma settle_pays_bucket_under_ball:
  assumes "profiles (store w) u = Some B" "0 \<le> betAmount gs" "0 \<le> tokenBalance w"
    and "landed_multiplier (risk gs) (pos_x b) = Some m" "0 \<le> m"
  shows "lastWin (fst (settle (Some u) no_faults no_faults no_faults b gs w))
           = Some (toFixed 2 (toFixed 2 (betAmount gs * m) - betAmount gs)) \<and>
         tokenBalance (snd (settle (Some u) no_faults no_faults no_faults b gs w))
           = toFixed 2 (tokenBalance w + toFixed 2 (betAmount gs * m))"
proof -
  have "0 \<le> toFixed 2 (betAmount gs * m)" using assms(2,5) by (intro toFixed_nonneg) simp
  then have "0 \<le> toFixed 2 (tokenBalance w + toFixed 2 (betAmount gs * m))"
    using assms(3) by (intro toFixed_nonneg) simp
  then show ?thesis using assms(1,4)
    by (simp add: settle_def no_faults_def recordGameTransaction_def updateTokenBalance_def
        Let_def max_def toFixed_idem)
qed

lemma landed_in_the_middle: "landed_multiplier Medium 400 = Some (2 / 10)"
  by (simp add: landed_multiplier_def CANVAS_WIDTH_def Let_def)

lemma plinko_example_settle:
  "lastWin (fst (settle (Some ''alice'') no_faults no_faults no_faults
      \<lparr>pos_x = 400, pos_y = 660, vel_x = 0, vel_y = 10, radius = 5, active = True,
        path = calculatePathToTarget 0 16, pathIndex = 16\<rparr>
      (fst plinko_dropped) (snd plinko_dropped))) = Some (- 16)"
proof -
  have l: "landed_multiplier (risk (fst plinko_dropped))
      (pos_x \<lparr>pos_x = 400, pos_y = 660, vel_x = 0, vel_y = 10, radius = 5, active = True,
        path = calculatePathToTarget 0 16, pathIndex = 16\<rparr>) = Some (2 / 10)"
    by (simp add: plinko_dropped_value plinko_initial_def landed_in_the_middle)
  have r: "toFixed 2 (toFixed 2 (20 * (2 / 10)) - 20) = - 16" by code_simp
  show ?thesis
    using settle_pays_bucket_under_ball [OF _ _ _ l, of "snd plinko_dropped" "''alice''" 80] r
    by (simp add: plinko_dropped_value plinko_initial_def)
qed

text \<open>
  C9. A drop at medium risk whose bucket draw is 0.01: the bucket determined by the
  draw is bucket 0, whose multiplier is 11.2. With the start draw and every later draw
  equal to 0.5 the ball falls straight onto the middle pin of the first row and keeps
  bouncing on it: after any number of frames the round is still dropping, nothing has
  been paid and the world is as \<open>dropBall\<close> left it. And a ball lying at abscissa 400
  when it reaches the buckets is paid the multiplier of bucket 8 (0.2, a loss of 16 on
  the bet of 20), whatever the path it carries.
\<close>

theorem C9_plinko_drop:
  "determineFinalBucket Medium (1 / 100) = 0 \<and>
   MULTIPLIERS Medium ! 0 = 112 / 10 \<and>
   isDropping (fst (fst (frames n (Some ''alice'') no_faults no_faults no_faults half_draws
      (plinko_dropped, 0)))) \<and>
   currentBall (fst (fst (frames n (Some ''alice'') no_faults no_faults no_faults half_draws
      (plinko_dropped, 0)))) \<noteq> None \<and>
   lastWin (fst (fst (frames n (Some ''alice'') no_faults no_faults no_faults half_draws
      (plinko_dropped, 0)))) = None \<and>
   snd (fst (frames n (Some ''alice'') no_faults no_faults no_faults half_draws
      (plinko_dropped, 0))) = snd plinko_dropped \<and>
   lastWin (fst (settle (Some ''alice'') no_faults no_faults no_faults
      \<lparr>pos_x = 400, pos_y = 660, vel_x = 0, vel_y = 10, radius = 5, active = True,
        path = calculatePathToTarget 0 16, pathIndex = 16\<rparr>
      (fst plinko_dropped) (snd plinko_dropped))) = Some (- 16)"
proof -
  have b: "determineFinalBucket Medium (1 / 100) = 0"
    by (simp add: determineFinalBucket_def first_interval_def indexOf_def)
  have s: "stuck (fst (fst (frames n (Some ''alice'') no_faults no_faults no_faults half_draws
              ((fst plinko_dropped, snd plinko_dropped), 0))))"
    "snd (fst (frames n (Some ''alice'') no_faults no_faults no_faults half_draws
              ((fst plinko_dropped, snd plinko_dropped), 0))) = snd plinko_dropped"
    "lastWin (fst (fst (frames n (Some ''alice'') no_faults no_faults no_faults half_draws
              ((fst plinko_dropped, snd plinko_dropped), 0)))) = lastWin (fst plinko_dropped)"
    using frames_stuck [OF plinko_dropped_stuck, of n "Some ''alice''" no_faults no_faults
        no_faults "snd plinko_dropped" 0]
    by simp_all
  have l: "lastWin (fst plinko_dropped) = None" by (simp add: plinko_dropped_value)
  show ?thesis
    using b s l plinko_example_settle
    by (auto simp: stuck_def split: option.splits)
qed

section \<open>A bet and its payout\<close>

lemma spend_then_credit:
  assumes "profiles st u = Some B" "bet \<le> B" "0 \<le> a"
  shows "profiles (run_ops [(no_faults, Spend u g bet), (no_faults, Credit u g a)] st) u
           = Some (toFixed 2 (toFixed 2 (B - bet) + a)) \<and>
         token_transactions (run_ops [(no_faults, Spend u g bet), (no_faults, Credit u g a)] st)
           = token_transactions st @ [transaction_row u g bet False, transaction_row u g a True]"
proof -
  have "0 \<le> toFixed 2 (B - bet)" using assms(2) by (intro toFixed_nonneg) simp
  then have "0 \<le> toFixed 2 (B - bet) + a" using assms(3) by simp
  then show ?thesis using assms
    by (simp add: no_faults_def recordGameTransaction_def updateTokenBalance_def Let_def max_def)
qed

lemma cents_exact:
  assumes "B * 100 = of_int i" "bet * 100 = of_int j" "a * 100 = of_int k"
  shows "toFixed 2 (toFixed 2 (B - bet) + a) = B - bet + a"
proof -
  have "(B - bet) * 10 ^ 2 = of_int (i - j)" using assms by (simp add: algebra_simps)
  then have 1: "toFixed 2 (B - bet) = B - bet" by (rule toFixed_whole)
  have "(B - bet + a) * 10 ^ 2 = of_int (i - j + k)" using assms by (simp add: algebra_simps)
  then have "toFixed 2 (B - bet + a) = B - bet + a" by (rule toFixed_whole)
  then show ?thesis using 1 by simp
qed

lemma dice_round_rows:
  assumes "profiles (store w) u = Some B" "0 < betAmount gs" "betAmount gs \<le> tokenBalance w"
    "betAmount gs \<le> B" "\<not> isRolling gs" "dice_won r gs"
  shows "token_transactions (store (snd (rollDice (Some u) no_faults no_faults no_faults r gs w)))
       = token_transactions (store w) @
           [transaction_row u dice (betAmount gs) False,
            transaction_row u dice (toFixed 2 (betAmount gs * multiplier gs) - betAmount gs) True]"
  using assms
  by (simp add: rollDice_def no_faults_def recordGameTransaction_def updateTokenBalance_def Let_def)

lemma plinko_round_rows:
  assumes "profiles (store w) u = Some B" "0 < betAmount gs" "betAmount gs \<le> tokenBalance w"
    "betAmount gs \<le> B" "\<not> isDropping gs"
    and "landed_multiplier (risk gs) (pos_x b) = Some m"
    and "0 < toFixed 2 (toFixed 2 (betAmount gs * m) - betAmount gs)"
  shows "token_transactions (store (snd (settle (Some u) no_faults no_faults no_faults b
            (fst (dropBall (Some u) no_faults no_faults rb rs gs w))
            (snd (dropBall (Some u) no_faults no_faults rb rs gs w)))))
       = token_transactions (store w) @
           [transaction_row u plinko (betAmount gs) False,
            transaction_row u plinko (toFixed 2 (toFixed 2 (betAmount gs * m) - betAmount gs)) True]"
  using assms
  by (simp add: dropBall_def settle_def no_faults_def recordGameTransaction_def updateTokenBalance_def Let_def)

lemma crash_round:
  assumes "profiles (store w) u = Some B" "0 < betAmount gs" "betAmount gs \<le> tokenBalance w"
    "betAmount gs \<le> B" "\<not> isFlying gs" "0 \<le> m"
  shows "token_transactions (store (snd (crash_cashout (Some u) no_faults no_faults
            ((fst (crash_startGame (Some u) no_faults r gs w))\<lparr>multiplier := m\<rparr>)
            (snd (crash_startGame (Some u) no_faults r gs w)))))
       = token_transactions (store w) @
           [transaction_row u crash (betAmount gs) False,
            transaction_row u crash (toFixed 2 (toFixed 2 (betAmount gs * m) - betAmount gs)) True] \<and>
     profiles (store (snd (crash_cashout (Some u) no_faults no_faults
            ((fst (crash_startGame (Some u) no_faults r gs w))\<lparr>multiplier := m\<rparr>)
            (snd (crash_startGame (Some u) no_faults r gs w))))) u
       = Some (toFixed 2 (toFixed 2 (tokenBalance w - betAmount gs) + toFixed 2 (betAmount gs * m)))"
proof -
  have a: "0 \<le> toFixed 2 (tokenBalance w - betAmount gs)" using assms(3) by (intro toFixed_nonneg) simp
  have b: "0 \<le> toFixed 2 (betAmount gs * m)" using assms(2,6) by (intro toFixed_nonneg) simp
  have "0 \<le> toFixed 2 (toFixed 2 (tokenBalance w - betAmount gs) + toFixed 2 (betAmount gs * m))"
    using a b by (intro toFixed_nonneg) simp
  then show ?thesis using assms
    by (simp add: crash_startGame_def crash_cashout_def no_faults_def recordGameTransaction_def
        updateTokenBalance_def Let_def max_def toFixed_idem)
qed

lemma mines_started_world:
  assumes "profiles (store w) u = Some B" "0 < betAmount gs" "betAmount gs \<le> tokenBalance w"
    "betAmount gs \<le> B" "mines_startGame (Some u) no_faults draws gs w = Some (gs1, w1)"
    "isPlaying gs1" "\<not> isPlaying gs"
  shows "w1 = \<lparr>tokenBalance = toFixed 2 (tokenBalance w - betAmount gs),
               store = (store w)\<lparr>token_transactions := token_transactions (store w) @
                           [transaction_row u mines (betAmount gs) False],
                        profiles := (profiles (store w))(u \<mapsto> toFixed 2 (B - betAmount gs)),
                        cachedBalance := Some (B - betAmount gs)\<rparr>\<rparr>"
proof (cases "initializeGame draws gs")
  case None
  then show ?thesis using assms
    by (simp add: mines_startGame_def no_faults_def recordGameTransaction_def
        updateTokenBalance_def Let_def max_def split: if_split_asm)
next
  case (Some t)
  obtain g ms gems where t: "t = (g, ms, gems)" by (cases t)
  have "0 \<le> toFixed 2 (B - betAmount gs)" using assms(4) by (intro toFixed_nonneg) simp
  then show ?thesis using assms Some t
    by (auto simp: mines_startGame_def no_faults_def recordGameTransaction_def
        updateTokenBalance_def Let_def max_def split: if_split_asm)
qed

lemma mines_round:
  assumes "profiles (store w) u = Some B" "0 < betAmount gs" "betAmount gs \<le> tokenBalance w"
    "betAmount gs \<le> B" "mines_startGame (Some u) no_faults draws gs w = Some (gs1, w1)"
    "isPlaying gs1" "\<not> isPlaying gs"
    and "betAmount gs2 = betAmount gs" "isPlaying gs2" "revealedCount gs2 \<noteq> 0"
    "0 \<le> currentMultiplier gs2"
  shows "token_transactions (store (snd (mines_cashout (Some u) no_faults no_faults gs2 w1)))
       = token_transactions (store w) @
           [transaction_row u mines (betAmount gs) False,
            transaction_row u mines
              (toFixed 2 (toFixed 2 (betAmount gs * currentMultiplier gs2) - betAmount gs)) True] \<and>
     profiles (store (snd (mines_cashout (Some u) no_faults no_faults gs2 w1))) u
       = Some (toFixed 2 (toFixed 2 (tokenBalance w - betAmount gs)
                 + toFixed 2 (betAmount gs * currentMultiplier gs2)))"
proof -
  note w1 = mines_started_world [OF assms(1-7)]
  have a: "0 \<le> toFixed 2 (tokenBalance w - betAmount gs)" using assms(3) by (intro toFixed_nonneg) simp
  have b: "0 \<le> toFixed 2 (betAmount gs * currentMultiplier gs2)"
    using assms(2,11) by (intro toFixed_nonneg) simp
  have "0 \<le> toFixed 2 (toFixed 2 (tokenBalance w - betAmount gs)
                 + toFixed 2 (betAmount gs * currentMultiplier gs2))"
    using a b by (intro toFixed_nonneg) simp
  then show ?thesis using assms(1,2,8,9,10)
    by (simp add: w1 mines_cashout_def no_faults_def recordGameTransaction_def
        updateTokenBalance_def Let_def max_def toFixed_idem)
qed

lemma blackjack_started_world:
  assumes "profiles (store w) u = Some B" "0 < betAmount gs" "betAmount gs \<le> tokenBalance w"
    "betAmount gs \<le> B" "gamePhase gs \<noteq> playing"
    "gamePhase (fst (blackjack_startGame (Some u) no_faults f1 f2 gs w)) = playing"
  shows "snd (blackjack_startGame (Some u) no_faults f1 f2 gs w)
       = \<lparr>tokenBalance = toFixed 2 (tokenBalance w - betAmount gs),
          store = (store w)\<lparr>token_transactions := token_transactions (store w) @
                           [transaction_row u blackjack (betAmount gs) False],
                        profiles := (profiles (store w))(u \<mapsto> toFixed 2 (B - betAmount gs)),
                        cachedBalance := Some (B - betAmount gs)\<rparr>\<rparr> \<and>
     betAmount (fst (blackjack_startGame (Some u) no_faults f1 f2 gs w)) = betAmount gs"
proof -
  have nn: "0 \<le> toFixed 2 (B - betAmount gs)" using assms(4) by (intro toFixed_nonneg) simp
  have rec: "recordGameTransaction no_faults u blackjack (betAmount gs) False (store w)
     = (Inr (), (store w)\<lparr>token_transactions := token_transactions (store w) @
                           [transaction_row u blackjack (betAmount gs) False],
                        profiles := (profiles (store w))(u \<mapsto> toFixed 2 (B - betAmount gs)),
                        cachedBalance := Some (B - betAmount gs)\<rparr>)"
    using assms(1,4) nn
    by (simp add: no_faults_def recordGameTransaction_def updateTokenBalance_def Let_def max_def)
  show ?thesis
  proof (cases "deal_four (deck gs)")
    case None
    then show ?thesis using assms(2,3,5,6) by (simp add: blackjack_startGame_def rec Let_def)
  next
    case (Some t)
    obtain p d nd where t: "t = (p, d, nd)" by (cases t)
    show ?thesis
    proof (cases "calculateScore p = 21")
      case False
      then show ?thesis using assms(2,3) Some t by (simp add: blackjack_startGame_def rec Let_def)
    next
      case True
      show ?thesis
      proof (cases "dealer_draws (dealerHand gs) (deck gs)")
        case None
        then show ?thesis using assms(2,3) Some t True
          by (simp add: blackjack_startGame_def rec Let_def)
      next
        case (Some t2)
        obtain dh dk where t2: "t2 = (dh, dk)" by (cases t2)
        have "gamePhase (fst (handleGameEnd (Some u) f1 f2 won bj g ww)) = gamePhase g"
          for won bj g ww
          by (simp add: handleGameEnd_def Let_def split: prod.splits sum.splits)
        then have "gamePhase (fst (blackjack_startGame (Some u) no_faults f1 f2 gs w)) = complete"
          using assms(2,3) \<open>deal_four (deck gs) = Some t\<close> t True Some t2
          by (simp add: blackjack_startGame_def rec Let_def)
        then show ?thesis using assms(6) by simp
      qed
    qed
  qed
qed

lemma blackjack_round:
  assumes "profiles (store w) u = Some B" "0 < betAmount gs" "betAmount gs \<le> tokenBalance w"
    "betAmount gs \<le> B" "gamePhase gs \<noteq> playing"
    "gamePhase (fst (blackjack_startGame (Some u) no_faults f1 f2 gs w)) = playing"
  shows "token_transactions (store (snd (handleGameEnd (Some u) no_faults no_faults True bj
            (fst (blackjack_startGame (Some u) no_faults f1 f2 gs w))
            (snd (blackjack_startGame (Some u) no_faults f1 f2 gs w)))))
       = token_transactions (store w) @
           [transaction_row u blackjack (betAmount gs) False,
            transaction_row u blackjack
              (toFixed 2 (toFixed 2 (betAmount gs * (if bj then 5 / 2 else 2)) - betAmount gs)) True] \<and>
     profiles (store (snd (handleGameEnd (Some u) no_faults no_faults True bj
            (fst (blackjack_startGame (Some u) no_faults f1 f2 gs w))
            (snd (blackjack_startGame (Some u) no_faults f1 f2 gs w))))) u
       = Some (toFixed 2 (toFixed 2 (tokenBalance w - betAmount gs)
                 + toFixed 2 (betAmount gs * (if bj then 5 / 2 else 2))))"
proof -
  note s = blackjack_started_world [OF assms]
  have a: "0 \<le> toFixed 2 (tokenBalance w - betAmount gs)" using assms(3) by (intro toFixed_nonneg) simp
  have b: "0 \<le> toFixed 2 (betAmount gs * k)" if "0 \<le> k" for k
    using assms(2) that by (intro toFixed_nonneg) simp
  have c: "0 \<le> toFixed 2 (toFixed 2 (tokenBalance w - betAmount gs) + toFixed 2 (betAmount gs * k))"
    if "0 \<le> k" for k
    using a b [OF that] by (intro toFixed_nonneg) simp
  show ?thesis
  proof (cases bj)
    case True
    then show ?thesis using c [of "5 / 2"] s
      by (simp add: handleGameEnd_def no_faults_def recordGameTransaction_def
          updateTokenBalance_def Let_def max_def toFixed_idem)
  next
    case False
    then show ?thesis using c [of 2] s
      by (simp add: handleGameEnd_def no_faults_def recordGameTransaction_def
          updateTokenBalance_def Let_def max_def toFixed_idem)
  qed
qed

lemma crash_example_round:
  "map token_amount (token_transactions (store (snd (crash_cashout (Some ''alice'') no_faults
      no_faults
      ((fst (crash_startGame (Some ''alice'') no_faults (1 / 2) crash_initial world0))
         \<lparr>multiplier := 3 / 2\<rparr>)
      (snd (crash_startGame (Some ''alice'') no_faults (1 / 2) crash_initial world0))))))
     = [20, 10] \<and>
   profiles (store (snd (crash_cashout (Some ''alice'') no_faults no_faults
      ((fst (crash_startGame (Some ''alice'') no_faults (1 / 2) crash_initial world0))
         \<lparr>multiplier := 3 / 2\<rparr>)
      (snd (crash_startGame (Some ''alice'') no_faults (1 / 2) crash_initial world0))))) ''alice''
     = Some 110"
proof -
  have h: "profiles (store world0) ''alice'' = Some 100" "0 < betAmount crash_initial"
    "betAmount crash_initial \<le> tokenBalance world0" "betAmount crash_initial \<le> 100"
    "\<not> isFlying crash_initial" "(0::real) \<le> 3 / 2"
    by (simp_all add: world0_def ledger0_def crash_initial_def)
  have v: "betAmount crash_initial = 20" "tokenBalance world0 = 100"
    "token_transactions (store world0) = []"
    by (simp_all add: world0_def ledger0_def crash_initial_def)
  have r: "toFixed 2 (toFixed 2 (100 - 20) + toFixed 2 (20 * (3 / 2))) = 110"
    "toFixed 2 (toFixed 2 (20 * (3 / 2)) - 20) = 10" "toFixed 2 20 = 20"
    "toFixed 2 10 = 10"
    by code_simp+
  show ?thesis
    using crash_round [OF h, of "1 / 2"] r unfolding v
    by (simp add: transaction_row_def)
qed




end
